theory Spec2Isabelle
  imports Main "HOL-Library.Word"
begin

section \<open>The argument vector\<close>

text \<open>
  \<open>main\<close> walks its argument vector with pointer arithmetic (\<open>argv += 2; argc -= 2\<close>).
  The model keeps both variables: \<open>argv\<close> is the list of strings from the current pointer
  to the end of the vector, \<open>argc\<close> the counter as the code updates it. C guarantees
  \<open>argv[argc] == NULL\<close> on entry, so reading the slot right after the last string yields
  the null pointer, and reading further is outside the array.
\<close>

datatype undefined_behaviour =
    Null_string_read
  | Out_of_bounds_read
  | Integer_overflow

datatype cell = Str string | Null | Out_of_bounds

record args =
  argv :: "string list"
  argc :: int

definition arg_at :: "'a args_scheme \<Rightarrow> nat \<Rightarrow> cell" where
  "arg_at a k =
     (if k < length (argv a) then Str (argv a ! k)
      else if int k = argc a then Null
      else Out_of_bounds)"

definition advance :: "nat \<Rightarrow> 'a args_scheme \<Rightarrow> 'a args_scheme" where
  "advance n a = a\<lparr>argv := drop n (argv a), argc := argc a - int n\<rparr>"

text \<open>\<open>!strcmp(p, s)\<close>: reading a null or out-of-range pointer is undefined.\<close>

definition streq :: "cell \<Rightarrow> string \<Rightarrow> undefined_behaviour + bool" where
  "streq c s =
     (case c of
        Str t \<Rightarrow> Inr (t = s)
      | Null \<Rightarrow> Inl Null_string_read
      | Out_of_bounds \<Rightarrow> Inl Out_of_bounds_read)"

section \<open>The C library's \<open>atoi\<close>, \<open>atol\<close> and \<open>atoll\<close>\<close>

text \<open>
  The conversions skip leading white space, read an optional sign and the longest run of
  decimal digits, and return 0 when there is none. ISO C leaves the result undefined when
  the value is not representable in the result type. \<open>int\<close> is 32 bits wide, \<open>long\<close> and
  \<open>long long\<close> 64 bits (LP64).
\<close>

definition isspace :: "char \<Rightarrow> bool" where
  "isspace c = (c \<in> set [CHR '' '', CHR 0x09, CHR 0x0A, CHR 0x0B, CHR 0x0C, CHR 0x0D])"

definition isdigit :: "char \<Rightarrow> bool" where
  "isdigit c = (48 \<le> (of_char c :: nat) \<and> (of_char c :: nat) \<le> 57)"

fun digits :: "int \<Rightarrow> string \<Rightarrow> int" where
  "digits acc [] = acc"
| "digits acc (c # cs) =
     (if isdigit c then digits (acc * 10 + (int (of_char c) - 48)) cs else acc)"

definition decimal_value :: "string \<Rightarrow> int" where
  "decimal_value s =
     (case dropWhile isspace s of
        [] \<Rightarrow> 0
      | c # cs \<Rightarrow>
          if c = CHR ''-'' then - digits 0 cs
          else if c = CHR ''+'' then digits 0 cs
          else digits 0 (c # cs))"

definition ato :: "nat \<Rightarrow> cell \<Rightarrow> undefined_behaviour + int" where
  "ato bits c =
     (case c of
        Null \<Rightarrow> Inl Null_string_read
      | Out_of_bounds \<Rightarrow> Inl Out_of_bounds_read
      | Str s \<Rightarrow>
          let v = decimal_value s
          in if - (2 ^ (bits - 1)) \<le> v \<and> v < 2 ^ (bits - 1) then Inr v
             else Inl Integer_overflow)"

definition atoi :: "cell \<Rightarrow> undefined_behaviour + int" where
  "atoi = ato 32"

definition atol :: "cell \<Rightarrow> undefined_behaviour + int" where
  "atol = ato 64"

definition atoll :: "cell \<Rightarrow> undefined_behaviour + int" where
  "atoll = ato 64"

text \<open>
  \<open>limit = atol(argv[1])\<close> stores a \<open>long\<close> in the \<open>int\<close> variable \<open>limit\<close>: the value is
  reduced to 32 bits, two's complement.
\<close>

definition int_of_long :: "int \<Rightarrow> int" where
  "int_of_long v = sint (word_of_int v :: 32 word)"

section \<open>Calls on the filter builder\<close>

text \<open>
  Modelled from the spec: the enumeration \<open>ndb_filter_fieldtype\<close> is declared in
  \<open>nostrdb.h\<close>, which is not part of the source at hand. The spec gives the closed set of
  discriminants; the three below are the ones \<open>main\<close> names. \<open>main\<close> stores one of them, or
  0 for "no field", in the \<open>int\<close> variable \<open>current_field\<close>, which the model renders as an
  option (every enumerator is nonzero).
\<close>

datatype fieldtype = NDB_FILTER_KINDS | NDB_FILTER_LIMIT | NDB_FILTER_UNTIL

text \<open>
  The filter \<open>f\<close> is only ever touched through the \<open>ndb_filter_*\<close> functions, none of
  which is defined in \<open>ndb.c\<close>. The model of \<open>main\<close> records the calls it makes on \<open>f\<close>, in
  order, with their arguments; what the calls do to the filter is a separate definition
  below. The string passed to \<open>ndb_filter_add_str_element\<close> is \<open>argv[1]\<close>, which is the
  null pointer when \<open>-t\<close> is the last token.
\<close>

datatype fcall =
    Start_field fieldtype
  | Start_tag_field char
  | Add_int_element int
  | Add_str_element "string option"
  | End_field

section \<open>The query command's token scan\<close>

record qstate = args +
  current_field :: "fieldtype option"
  calls :: "fcall list"

definition end_if_current :: "'a qstate_scheme \<Rightarrow> 'a qstate_scheme" where
  "end_if_current s =
     (if current_field s \<noteq> None
      then s\<lparr>calls := calls s @ [End_field], current_field := None\<rparr>
      else s)"

definition query_k :: "qstate \<Rightarrow> undefined_behaviour + qstate" where
  "query_k s =
     (let s1 = (if current_field s \<noteq> Some NDB_FILTER_KINDS
                then s\<lparr>calls := calls s @ [Start_field NDB_FILTER_KINDS]\<rparr> else s);
          s2 = s1\<lparr>current_field := Some NDB_FILTER_KINDS\<rparr>
      in case atoll (arg_at s2 1) of
           Inl e \<Rightarrow> Inl e
         | Inr n \<Rightarrow> Inr (advance 2 (s2\<lparr>calls := calls s2 @ [Add_int_element n]\<rparr>)))"

definition query_l :: "qstate \<Rightarrow> undefined_behaviour + qstate" where
  "query_l s =
     (case atol (arg_at s 1) of
        Inl e \<Rightarrow> Inl e
      | Inr v \<Rightarrow>
          let limit = int_of_long v;
              s1 = end_if_current s;
              s2 = s1\<lparr>calls := calls s1 @ [Start_field NDB_FILTER_LIMIT],
                      current_field := Some NDB_FILTER_LIMIT\<rparr>
          in Inr (advance 2 (s2\<lparr>calls := calls s2 @ [Add_int_element limit, End_field]\<rparr>)))"

definition query_u :: "qstate \<Rightarrow> undefined_behaviour + qstate" where
  "query_u s =
     (let s1 = end_if_current s;
          s2 = s1\<lparr>calls := calls s1 @ [Start_field NDB_FILTER_UNTIL]\<rparr>
      in case atoll (arg_at s2 1) of
           Inl e \<Rightarrow> Inl e
         | Inr n \<Rightarrow> Inr (advance 2 (s2\<lparr>calls := calls s2 @ [Add_int_element n, End_field]\<rparr>)))"

definition query_t :: "qstate \<Rightarrow> undefined_behaviour + qstate" where
  "query_t s =
     (let s1 = end_if_current s;
          s2 = s1\<lparr>calls := calls s1 @ [Start_tag_field CHR ''t'']\<rparr>
      in case arg_at s2 1 of
           Out_of_bounds \<Rightarrow> Inl Out_of_bounds_read
         | Null \<Rightarrow> Inr (advance 2 (s2\<lparr>calls := calls s2 @ [Add_str_element None, End_field]\<rparr>))
         | Str v \<Rightarrow>
             Inr (advance 2 (s2\<lparr>calls := calls s2 @ [Add_str_element (Some v), End_field]\<rparr>)))"

text \<open>The body of the loop: one \<open>if\<close>/\<open>else if\<close> chain on \<open>argv[0]\<close>, with no final \<open>else\<close>.\<close>

definition query_step :: "qstate \<Rightarrow> undefined_behaviour + qstate" where
  "query_step s =
     (case arg_at s 0 of
        Null \<Rightarrow> Inl Null_string_read
      | Out_of_bounds \<Rightarrow> Inl Out_of_bounds_read
      | Str a \<Rightarrow>
          if a = ''-k'' then query_k s
          else if a = ''-l'' then query_l s
          else if a = ''-u'' then query_u s
          else if a = ''-t'' then query_t s
          else Inr s)"

text \<open>\<open>for (i = 0; argc && i < 100; i++)\<close>\<close>

function query_scan :: "nat \<Rightarrow> qstate \<Rightarrow> undefined_behaviour + qstate" where
  "query_scan i s =
     (if argc s \<noteq> 0 \<and> i < 100
      then (case query_step s of Inl e \<Rightarrow> Inl e | Inr s' \<Rightarrow> query_scan (Suc i) s')
      else Inr s)"
  by pat_completeness auto
termination
  by (relation "measure (\<lambda>(i, s). 100 - i)") auto

declare query_scan.simps [simp del]

text \<open>
  From \<open>ndb_filter_init(f)\<close> to the close after the loop: \<open>argv += 2; argc -= 2;
  current_field = 0\<close>, the scan, and the final \<open>if (current_field)\<close>. The result is the
  sequence of calls made on \<open>f\<close> before it is handed to \<open>ndb_query\<close>.
\<close>

definition query_build :: "args \<Rightarrow> undefined_behaviour + fcall list" where
  "query_build a =
     (let a' = advance 2 a
      in case query_scan 0 \<lparr>argv = argv a', argc = argc a', current_field = None, calls = []\<rparr> of
           Inl e \<Rightarrow> Inl e
         | Inr s \<Rightarrow> Inr (calls (end_if_current s)))"

section \<open>The filter builder\<close>

text \<open>
  The functions \<open>ndb_filter_init\<close>, \<open>ndb_filter_start_field\<close>,
  \<open>ndb_filter_start_tag_field\<close>, \<open>ndb_filter_add_int_element\<close>,
  \<open>ndb_filter_add_str_element\<close> and \<open>ndb_filter_end_field\<close> are defined in the library,
  not in \<open>ndb.c\<close>, and so is \<open>struct ndb_filter\<close>. Each definition of this section is
  written from the contract of the spec's Filter Builder. \<open>main\<close> ignores the value every
  one of these functions returns, so the model keeps the filter only.
\<close>

text \<open>
  Modelled from the spec: the discriminant of a field (\<open>struct ndb_filter\<close> is missing).
  It is one of the field types, or TAG keyed by a single character.
\<close>

datatype field_id = Plain fieldtype | Tag char

text \<open>
  Modelled from the spec: the elements of a field (\<open>struct ndb_filter\<close> is missing) are
  integers or strings.
\<close>

datatype element = Int_element int | Str_element string

text \<open>
  Modelled from the spec: a field (\<open>struct ndb_filter\<close> is missing) owns an ordered
  sequence of elements.
\<close>

record filter_field =
  field_id :: field_id
  elements :: "element list"

text \<open>
  Modelled from the spec: a filter (\<open>struct ndb_filter\<close> is missing) is composed of zero
  or more fields, here the closed ones in the order they were closed, and at most one
  field is open.
\<close>

record ndb_filter =
  closed :: "filter_field list"
  current :: "filter_field option"

text \<open>
  Modelled from the spec: \<open>ndb_filter_init\<close> is missing. The filter is created empty.
\<close>

definition ndb_filter_init :: ndb_filter where
  "ndb_filter_init = \<lparr>closed = [], current = None\<rparr>"

text \<open>
  Modelled from the spec: the common part of the missing \<open>ndb_filter_start_field\<close> and
  \<open>ndb_filter_start_tag_field\<close>. Starting a field opens it; the call fails, changing
  nothing, when a field is already open.
\<close>

definition open_field :: "ndb_filter \<Rightarrow> field_id \<Rightarrow> ndb_filter" where
  "open_field f k =
     (if current f = None then f\<lparr>current := Some \<lparr>field_id = k, elements = []\<rparr>\<rparr> else f)"

text \<open>Modelled from the spec: \<open>ndb_filter_start_field\<close> is missing. It opens a field.\<close>

definition ndb_filter_start_field :: "ndb_filter \<Rightarrow> fieldtype \<Rightarrow> ndb_filter" where
  "ndb_filter_start_field f k = open_field f (Plain k)"

text \<open>
  Modelled from the spec: \<open>ndb_filter_start_tag_field\<close> is missing. It is
  \<open>start_field\<close> for a TAG field and records the tag letter.
\<close>

definition ndb_filter_start_tag_field :: "ndb_filter \<Rightarrow> char \<Rightarrow> ndb_filter" where
  "ndb_filter_start_tag_field f c = open_field f (Tag c)"

text \<open>
  Modelled from the spec: the declared element type of a field (\<open>struct ndb_filter\<close> is
  missing). KINDS, LIMIT and UNTIL hold integers, a TAG field holds strings.
\<close>

fun holds_ints :: "field_id \<Rightarrow> bool" where
  "holds_ints (Plain k) = True"
| "holds_ints (Tag c) = False"

text \<open>
  Modelled from the spec: \<open>ndb_filter_add_int_element\<close> is missing. It appends the
  integer to the open field; with no field open, or an open field that holds strings,
  the call is rejected and changes nothing.
\<close>

definition ndb_filter_add_int_element :: "ndb_filter \<Rightarrow> int \<Rightarrow> ndb_filter" where
  "ndb_filter_add_int_element f n =
     (case current f of
        None \<Rightarrow> f
      | Some fl \<Rightarrow>
          if holds_ints (field_id fl)
          then f\<lparr>current := Some (fl\<lparr>elements := elements fl @ [Int_element n]\<rparr>)\<rparr>
          else f)"

text \<open>
  Modelled from the spec: \<open>ndb_filter_add_str_element\<close> is missing. It appends the
  string to the open field; with no field open, an open field that holds integers, or
  a null string, the call is rejected and changes nothing.
\<close>

definition ndb_filter_add_str_element :: "ndb_filter \<Rightarrow> string option \<Rightarrow> ndb_filter" where
  "ndb_filter_add_str_element f str =
     (case (current f, str) of
        (Some fl, Some v) \<Rightarrow>
          if holds_ints (field_id fl) then f
          else f\<lparr>current := Some (fl\<lparr>elements := elements fl @ [Str_element v]\<rparr>)\<rparr>
      | _ \<Rightarrow> f)"

text \<open>
  Modelled from the spec: \<open>ndb_filter_end_field\<close> is missing. It closes the open field
  and appends it to the filter; with no field open it is a no-op.
\<close>

definition ndb_filter_end_field :: "ndb_filter \<Rightarrow> ndb_filter" where
  "ndb_filter_end_field f =
     (case current f of
        None \<Rightarrow> f
      | Some fl \<Rightarrow> \<lparr>closed = closed f @ [fl], current = None\<rparr>)"

text \<open>What one recorded call does to the filter.\<close>

fun apply_call :: "ndb_filter \<Rightarrow> fcall \<Rightarrow> ndb_filter" where
  "apply_call f (Start_field k) = ndb_filter_start_field f k"
| "apply_call f (Start_tag_field c) = ndb_filter_start_tag_field f c"
| "apply_call f (Add_int_element n) = ndb_filter_add_int_element f n"
| "apply_call f (Add_str_element str) = ndb_filter_add_str_element f str"
| "apply_call f End_field = ndb_filter_end_field f"

text \<open>The filter that a sequence of calls leaves behind, starting from \<open>f\<close>.\<close>

definition apply_calls :: "ndb_filter \<Rightarrow> fcall list \<Rightarrow> ndb_filter" where
  "apply_calls f cs = foldl apply_call f cs"

definition filter_of :: "fcall list \<Rightarrow> ndb_filter" where
  "filter_of cs = apply_calls ndb_filter_init cs"

fun is_start :: "fcall \<Rightarrow> bool" where
  "is_start (Start_field k) = True"
| "is_start (Start_tag_field c) = True"
| "is_start c = False"

text \<open>
  Every call that opens a field finds no field open: the check runs the calls from \<open>f\<close>
  and looks at the builder just before each \<open>start\<close>.
\<close>

fun starts_on_closed :: "ndb_filter \<Rightarrow> fcall list \<Rightarrow> bool" where
  "starts_on_closed f [] = True"
| "starts_on_closed f (c # cs) =
     ((if is_start c then current f = None else True) \<and> starts_on_closed (apply_call f c) cs)"

section \<open>The search command's options\<close>

text \<open>
  Modelled from the spec: the two orderings of a text search (the enumeration is
  declared in \<open>nostrdb.h\<close>, which is missing; \<open>main\<close> names \<open>NDB_ORDER_ASCENDING\<close> only).
\<close>

datatype ndb_order = NDB_ORDER_DESCENDING | NDB_ORDER_ASCENDING

text \<open>
  Modelled from the spec: \<open>struct ndb_text_search_config\<close> is missing. A text search
  request holds an ordering and a result limit.
\<close>

record text_search_config =
  cfg_order :: ndb_order
  cfg_limit :: int

text \<open>
  Modelled from the spec: \<open>ndb_default_text_search_config\<close> is missing. The ordering is
  descending by default; the default limit is left to the implementation, a parameter
  here.
\<close>

definition ndb_default_text_search_config :: "int \<Rightarrow> text_search_config" where
  "ndb_default_text_search_config default_limit =
     \<lparr>cfg_order = NDB_ORDER_DESCENDING, cfg_limit = default_limit\<rparr>"

text \<open>
  Modelled from the spec: \<open>ndb_text_search_config_set_order\<close> is missing. It sets the
  ordering.
\<close>

definition ndb_text_search_config_set_order ::
  "text_search_config \<Rightarrow> ndb_order \<Rightarrow> text_search_config" where
  "ndb_text_search_config_set_order cfg ord = cfg\<lparr>cfg_order := ord\<rparr>"

text \<open>
  Modelled from the spec: \<open>ndb_text_search_config_set_limit\<close> is missing. It sets the
  result cap.
\<close>

definition ndb_text_search_config_set_limit ::
  "text_search_config \<Rightarrow> int \<Rightarrow> text_search_config" where
  "ndb_text_search_config_set_limit cfg n = cfg\<lparr>cfg_limit := n\<rparr>"

record sstate = args +
  search_config :: text_search_config

text \<open>The body of \<open>for (i = 0; i < 2; i++)\<close> in the search branch.\<close>

definition search_step :: "sstate \<Rightarrow> undefined_behaviour + sstate" where
  "search_step s =
     (case arg_at s 2 of
        Null \<Rightarrow> Inl Null_string_read
      | Out_of_bounds \<Rightarrow> Inl Out_of_bounds_read
      | Str a \<Rightarrow>
          if a = ''--oldest-first''
          then Inr (advance 1
                 (s\<lparr>search_config :=
                      ndb_text_search_config_set_order (search_config s) NDB_ORDER_ASCENDING\<rparr>))
          else if a = ''--limit'' \<or> a = ''-l''
          then (case atoi (arg_at s 3) of
                  Inl e \<Rightarrow> Inl e
                | Inr limit \<Rightarrow>
                    Inr (advance 2
                      (s\<lparr>search_config :=
                           ndb_text_search_config_set_limit (search_config s) limit\<rparr>)))
          else Inr s)"

definition search_options :: "sstate \<Rightarrow> undefined_behaviour + sstate" where
  "search_options s =
     (case search_step s of Inl e \<Rightarrow> Inl e | Inr s' \<Rightarrow> search_step s')"

section \<open>The stats report\<close>

text \<open>
  The two structures are declared in \<open>nostrdb.h\<close>; the fields below are the ones
  \<open>print_stats\<close> reads. \<open>struct ndb_stat_counts\<close> holds three \<open>size_t\<close> counters, printed
  with \<open>%zu\<close> and taken to be 64 bits wide; \<open>struct ndb_stat\<close> holds an array \<open>dbs\<close> of
  \<open>NDB_DBS\<close> of them, an array \<open>common_kinds\<close> of \<open>NDB_CKIND_COUNT\<close> of them, and
  \<open>other_kinds\<close>. The arrays are lists here and the two constants are their lengths.
  The local variable \<open>total\<close> of \<open>print_stats\<close> is \<open>tot\<close> below.
\<close>

record ndb_stat_counts =
  count :: "64 word"
  key_size :: "64 word"
  value_size :: "64 word"

record ndb_stat =
  dbs :: "ndb_stat_counts list"
  common_kinds :: "ndb_stat_counts list"
  other_kinds :: ndb_stat_counts

definition NDB_DBS :: "ndb_stat \<Rightarrow> nat" where
  "NDB_DBS stat = length (dbs stat)"

definition NDB_CKIND_COUNT :: "ndb_stat \<Rightarrow> nat" where
  "NDB_CKIND_COUNT stat = length (common_kinds stat)"

text \<open>
  Modelled from the spec: \<open>ndb_stat_counts_init\<close> is missing. The total accumulator is
  the sum of the sub-store counters, so it starts from zero.
\<close>

definition ndb_stat_counts_init :: ndb_stat_counts where
  "ndb_stat_counts_init = \<lparr>count = 0, key_size = 0, value_size = 0\<rparr>"

text \<open>
  What \<open>print_stats\<close> writes to standard output, one item per \<open>printf\<close>: the line of
  column names, the banner of the first section (\<open>"---\ndbs\n---\n"\<close>), a name followed
  by a tab (\<open>printf("%s\t", name)\<close>, and likewise \<open>"total\t"\<close> and \<open>"other\t"\<close>), the
  banner of the second section (\<open>"-----\nkinds\n-----\n"\<close>), or the line of four numbers
  of \<open>print_stat_counts\<close>.
\<close>

datatype out =
    Column_names
  | Dbs_banner
  | Name_tab string
  | Kinds_banner
  | Counts_line "64 word" "64 word" "64 word" "64 word"

definition print_stat_counts :: "ndb_stat_counts \<Rightarrow> out" where
  "print_stat_counts counts =
     Counts_line (count counts) (key_size counts) (value_size counts)
       (key_size counts + value_size counts)"

function dbs_loop ::
  "(nat \<Rightarrow> string) \<Rightarrow> ndb_stat \<Rightarrow> nat \<Rightarrow> ndb_stat_counts \<Rightarrow> out list
     \<Rightarrow> ndb_stat_counts \<times> out list" where
  "dbs_loop ndb_db_name stat i tot output =
     (if i < NDB_DBS stat
      then let name = ndb_db_name i;
               tot' = tot\<lparr>count := count tot + count (dbs stat ! i),
                              key_size := key_size tot + key_size (dbs stat ! i),
                              value_size := value_size tot + value_size (dbs stat ! i)\<rparr>
           in dbs_loop ndb_db_name stat (Suc i) tot'
                (output @ [Name_tab name, print_stat_counts (dbs stat ! i)])
      else (tot, output))"
  by pat_completeness auto
termination
  by (relation "measure (\<lambda>(n, stat, i, tot, output). NDB_DBS stat - i)") auto

declare dbs_loop.simps [simp del]

function kinds_loop :: "(nat \<Rightarrow> string) \<Rightarrow> ndb_stat \<Rightarrow> nat \<Rightarrow> out list \<Rightarrow> out list" where
  "kinds_loop ndb_kind_name stat i output =
     (if i < NDB_CKIND_COUNT stat
      then let c = common_kinds stat ! i
           in if count c = 0 then kinds_loop ndb_kind_name stat (Suc i) output
              else kinds_loop ndb_kind_name stat (Suc i)
                     (output @ [Name_tab (ndb_kind_name i), print_stat_counts c])
      else output)"
  by pat_completeness auto
termination
  by (relation "measure (\<lambda>(n, stat, i, output). NDB_CKIND_COUNT stat - i)") auto

declare kinds_loop.simps [simp del]

definition print_other :: "ndb_stat \<Rightarrow> out list" where
  "print_other stat =
     (if count (other_kinds stat) \<noteq> 0
      then [Name_tab ''other'', print_stat_counts (other_kinds stat)]
      else [])"

definition print_stats :: "(nat \<Rightarrow> string) \<Rightarrow> (nat \<Rightarrow> string) \<Rightarrow> ndb_stat \<Rightarrow> out list" where
  "print_stats ndb_db_name ndb_kind_name stat =
     (let (tot, output) =
            dbs_loop ndb_db_name stat 0 ndb_stat_counts_init [Column_names, Dbs_banner]
      in kinds_loop ndb_kind_name stat 0
           (output @ [Name_tab ''total'', print_stat_counts tot, Kinds_banner])
         @ print_other stat)"

section \<open>The program\<close>

text \<open>
  What the library and the system answer during one run: whether \<open>ndb_init\<close> succeeds,
  what \<open>ndb_stat\<close> yields (\<open>None\<close> when it fails), the number of results that
  \<open>ndb_text_search\<close> and \<open>ndb_query\<close> report, the library's default search limit, the
  value of the constant \<open>NDB_FLAG_SKIP_NOTE_VERIFY\<close>, and the two name tables.
\<close>

record env =
  ndb_init_ok :: bool
  ndb_stat_result :: "ndb_stat option"
  search_num_results :: int
  query_count :: int
  default_search_limit :: int
  NDB_FLAG_SKIP_NOTE_VERIFY :: int
  ndb_db_name :: "nat \<Rightarrow> string"
  ndb_kind_name :: "nat \<Rightarrow> string"

text \<open>
  The observable actions of \<open>main\<close>, in order: the calls into the library with the
  arguments that matter, and what is written to the two output streams. The two
  \<open>clock_gettime\<close> calls and the elapsed time in the diagnostic line are left out.
\<close>

datatype event =
    Print_usage
  | Ndb_config_set_mapsize int
  | Ndb_config_set_flags int
  | Stderr_using_db string
  | Ndb_init string
  | Ndb_begin_query
  | Ndb_end_query
  | Ndb_text_search "string option" text_search_config
  | Stderr_results int
  | Print_text_search_result nat
  | Ndb_stat
  | Stdout "out list"
  | Ndb_query "fcall list" int
  | Print_note nat
  | Ndb_process_events_stream
  | Map_file string
  | Ndb_process_events
  | Ndb_process_client_events
  | Ndb_print_search_keys
  | Ndb_print_kind_keys
  | Ndb_print_tag_keys
  | Ndb_destroy

record gstate = args +
  dir :: string
  flags :: int

text \<open>The body of the first loop, over the settings \<open>-d\<close> and \<open>--skip-verification\<close>.\<close>

definition settings_step :: "env \<Rightarrow> gstate \<Rightarrow> undefined_behaviour + gstate" where
  "settings_step e g =
     (case arg_at g 1 of
        Null \<Rightarrow> Inl Null_string_read
      | Out_of_bounds \<Rightarrow> Inl Out_of_bounds_read
      | Str a \<Rightarrow>
          (case (a = ''-d'', arg_at g 2) of
             (True, Out_of_bounds) \<Rightarrow> Inl Out_of_bounds_read
           | (True, Str d) \<Rightarrow> Inr (advance 2 (g\<lparr>dir := d\<rparr>))
           | _ \<Rightarrow>
               if a = ''--skip-verification''
               then Inr (advance 1 (g\<lparr>flags := NDB_FLAG_SKIP_NOTE_VERIFY e\<rparr>))
               else Inr g))"

definition settings :: "env \<Rightarrow> gstate \<Rightarrow> undefined_behaviour + gstate" where
  "settings e g =
     (case settings_step e g of Inl x \<Rightarrow> Inl x | Inr g' \<Rightarrow> settings_step e g')"

text \<open>\<open>argc-test && !strcmp(argv[1], name)\<close>, the right operand read only when the left holds.\<close>

definition command_is :: "'a args_scheme \<Rightarrow> bool \<Rightarrow> string \<Rightarrow> undefined_behaviour + bool" where
  "command_is a argc_test name = (if argc_test then streq (arg_at a 1) name else Inr False)"

text \<open>Falling off the end of \<open>main\<close>: \<open>ndb_destroy(ndb)\<close>, and the exit status is 0.\<close>

definition finish :: "event list \<Rightarrow> undefined_behaviour + event list \<times> int" where
  "finish evs = Inr (evs @ [Ndb_destroy], 0)"

definition run_search :: "env \<Rightarrow> gstate \<Rightarrow> undefined_behaviour + event list \<times> int" where
  "run_search e g =
     (case search_options \<lparr>argv = argv g, argc = argc g,
             search_config = ndb_default_text_search_config (default_search_limit e)\<rparr> of
        Inl x \<Rightarrow> Inl x
      | Inr s \<Rightarrow>
          (case arg_at s 2 of
             Out_of_bounds \<Rightarrow> Inl Out_of_bounds_read
           | Null \<Rightarrow>
               finish ([Ndb_begin_query, Ndb_text_search None (search_config s),
                        Stderr_results (search_num_results e)]
                       @ map Print_text_search_result [0 ..< nat (search_num_results e)]
                       @ [Ndb_end_query])
           | Str q \<Rightarrow>
               finish ([Ndb_begin_query, Ndb_text_search (Some q) (search_config s),
                        Stderr_results (search_num_results e)]
                       @ map Print_text_search_result [0 ..< nat (search_num_results e)]
                       @ [Ndb_end_query])))"

definition run_stat :: "env \<Rightarrow> undefined_behaviour + event list \<times> int" where
  "run_stat e =
     (case ndb_stat_result e of
        None \<Rightarrow> Inr ([Ndb_stat], 3)
      | Some stat \<Rightarrow>
          finish [Ndb_stat, Stdout (print_stats (ndb_db_name e) (ndb_kind_name e) stat)])"

definition run_query :: "env \<Rightarrow> gstate \<Rightarrow> undefined_behaviour + event list \<times> int" where
  "run_query e g =
     (case query_build \<lparr>argv = argv g, argc = argc g\<rparr> of
        Inl x \<Rightarrow> Inl x
      | Inr f \<Rightarrow>
          finish ([Ndb_begin_query, Ndb_query f 10000, Stderr_results (query_count e)]
                  @ map Print_note [0 ..< nat (query_count e)]
                  @ [Ndb_end_query]))"

definition run_import :: "gstate \<Rightarrow> undefined_behaviour + event list \<times> int" where
  "run_import g =
     (case arg_at g 2 of
        Null \<Rightarrow> Inl Null_string_read
      | Out_of_bounds \<Rightarrow> Inl Out_of_bounds_read
      | Str file \<Rightarrow>
          if file = ''-'' then finish [Ndb_process_events_stream]
          else finish [Map_file file, Ndb_process_events, Ndb_process_client_events])"

text \<open>The chain of \<open>if\<close>/\<open>else if\<close> on the command, after \<open>ndb_init\<close> has succeeded.\<close>

definition dispatch :: "env \<Rightarrow> gstate \<Rightarrow> undefined_behaviour + event list \<times> int" where
  "dispatch e g =
     (case command_is g (argc g \<ge> 3) ''search'' of Inl x \<Rightarrow> Inl x
      | Inr True \<Rightarrow> run_search e g
      | Inr False \<Rightarrow>
     (case command_is g (argc g = 2) ''stat'' of Inl x \<Rightarrow> Inl x
      | Inr True \<Rightarrow> run_stat e
      | Inr False \<Rightarrow>
     (case command_is g (argc g \<ge> 3) ''query'' of Inl x \<Rightarrow> Inl x
      | Inr True \<Rightarrow> run_query e g
      | Inr False \<Rightarrow>
     (case command_is g (argc g = 3) ''import'' of Inl x \<Rightarrow> Inl x
      | Inr True \<Rightarrow> run_import g
      | Inr False \<Rightarrow>
     (case command_is g (argc g = 2) ''print-search-keys'' of Inl x \<Rightarrow> Inl x
      | Inr True \<Rightarrow> finish [Ndb_begin_query, Ndb_print_search_keys, Ndb_end_query]
      | Inr False \<Rightarrow>
     (case command_is g (argc g = 2) ''print-kind-keys'' of Inl x \<Rightarrow> Inl x
      | Inr True \<Rightarrow> finish [Ndb_begin_query, Ndb_print_kind_keys, Ndb_end_query]
      | Inr False \<Rightarrow>
     (case command_is g (argc g = 2) ''print-tag-keys'' of Inl x \<Rightarrow> Inl x
      | Inr True \<Rightarrow> finish [Ndb_begin_query, Ndb_print_tag_keys, Ndb_end_query]
      | Inr False \<Rightarrow> Inr ([Print_usage], 1))))))))"

text \<open>
  \<open>main\<close>: the result is the sequence of actions and the exit status, or the undefined
  behaviour the run ends in.
\<close>

definition main :: "env \<Rightarrow> string list \<Rightarrow> undefined_behaviour + event list \<times> int" where
  "main e av =
     (let config = [Ndb_config_set_mapsize (1024 * 1024 * 1024 * 1024)]
      in if int (length av) < 2 then Inr (config @ [Print_usage], 1)
         else
           (case settings e \<lparr>argv = av, argc = int (length av), dir = ''.'', flags = 0\<rparr> of
              Inl x \<Rightarrow> Inl x
            | Inr g \<Rightarrow>
                let opened = config @ [Ndb_config_set_flags (flags g), Stderr_using_db (dir g),
                                       Ndb_init (dir g)]
                in if \<not> ndb_init_ok e then Inr (opened, 2)
                   else (case dispatch e g of
                           Inl x \<Rightarrow> Inl x
                         | Inr (evs, status) \<Rightarrow> Inr (opened @ evs, status))))"

section \<open>Notions used in the statements\<close>

text \<open>
  The variable \<open>current_field\<close> of \<open>main\<close> and the builder's open field agree in this way
  throughout the scan: the calls made so far never started a field on an open one, and
  the builder has a field open exactly when \<open>current_field\<close> is KINDS, that field being
  the KINDS field.
\<close>

definition builder_agrees :: "qstate \<Rightarrow> bool" where
  "builder_agrees s =
     (starts_on_closed ndb_filter_init (calls s) \<and>
      (case current (filter_of (calls s)) of
         None \<Rightarrow> current_field s \<noteq> Some NDB_FILTER_KINDS
       | Some fl \<Rightarrow>
           current_field s = Some NDB_FILTER_KINDS \<and> field_id fl = Plain NDB_FILTER_KINDS))"

text \<open>A run in which the store opens, with a small stats record, for concrete instances.\<close>

definition sample_stat :: ndb_stat where
  "sample_stat =
     \<lparr>dbs = [\<lparr>count = 3, key_size = 96, value_size = 700\<rparr>],
      common_kinds = [\<lparr>count = 0, key_size = 0, value_size = 0\<rparr>,
                      \<lparr>count = 2, key_size = 64, value_size = 500\<rparr>],
      other_kinds = \<lparr>count = 1, key_size = 32, value_size = 200\<rparr>\<rparr>"

fun sample_name :: "nat \<Rightarrow> string" where
  "sample_name i = (if i = 0 then ''profile'' else ''text'')"

definition sample_env :: env where
  "sample_env =
     \<lparr>ndb_init_ok = True, ndb_stat_result = Some sample_stat, search_num_results = 2,
      query_count = 1, default_search_limit = 128, NDB_FLAG_SKIP_NOTE_VERIFY = 1,
      ndb_db_name = sample_name, ndb_kind_name = sample_name\<rparr>"

text \<open>The token sequence \<open>-k v1 -k v2 ...\<close> for the values \<open>vs\<close>.\<close>

definition kind_tokens :: "string list \<Rightarrow> string list" where
  "kind_tokens vs = concat (map (\<lambda>v. [''-k'', v]) vs)"

text \<open>The part of the stats report that follows the banner of the kinds section.\<close>

definition kinds_section :: "out list \<Rightarrow> out list" where
  "kinds_section report = tl (dropWhile (\<lambda>x. x \<noteq> Kinds_banner) report)"

section \<open>Basic facts\<close>

lemma query_scan_stop: "argc s = 0 \<or> 100 \<le> i \<Longrightarrow> query_scan i s = Inr s"
  by (auto simp: query_scan.simps)

lemma query_scan_step:
  "argc s \<noteq> 0 \<Longrightarrow> i < 100 \<Longrightarrow>
   query_scan i s = (case query_step s of Inl e \<Rightarrow> Inl e | Inr s' \<Rightarrow> query_scan (Suc i) s')"
  by (subst query_scan.simps) simp

lemma apply_calls_append: "apply_calls f (cs @ ds) = apply_calls (apply_calls f cs) ds"
  by (simp add: apply_calls_def)

lemma apply_calls_Nil: "apply_calls f [] = f"
  by (simp add: apply_calls_def)

lemma apply_calls_Cons: "apply_calls f (c # cs) = apply_calls (apply_call f c) cs"
  by (simp add: apply_calls_def)

lemma starts_on_closed_append:
  "starts_on_closed f (cs @ ds) =
     (starts_on_closed f cs \<and> starts_on_closed (apply_calls f cs) ds)"
  by (induction cs arbitrary: f) (auto simp: apply_calls_Nil apply_calls_Cons)

lemmas builder_defs =
  ndb_filter_start_field_def ndb_filter_start_tag_field_def open_field_def
  ndb_filter_add_int_element_def ndb_filter_add_str_element_def ndb_filter_end_field_def

lemmas calls_simps =
  filter_of_def starts_on_closed_append apply_calls_append apply_calls_Cons apply_calls_Nil

subsection \<open>The settings loop and the dispatch\<close>

lemma settings_none:
  assumes "c \<noteq> ''-d''" "c \<noteq> ''--skip-verification''"
  shows "settings e \<lparr>argv = p # c # rest, argc = a, dir = d, flags = fl\<rparr>
         = Inr \<lparr>argv = p # c # rest, argc = a, dir = d, flags = fl\<rparr>"
  using assms by (simp add: settings_def settings_step_def arg_at_def)

lemma main_command:
  assumes "c \<noteq> ''-d''" "c \<noteq> ''--skip-verification''" "ndb_init_ok e"
  shows "main e (p # c # rest) =
     (case dispatch e \<lparr>argv = p # c # rest, argc = 2 + int (length rest),
                        dir = ''.'', flags = 0\<rparr> of
        Inl x \<Rightarrow> Inl x
      | Inr (evs, status) \<Rightarrow>
          Inr ([Ndb_config_set_mapsize 1099511627776, Ndb_config_set_flags 0,
                Stderr_using_db ''.'', Ndb_init ''.''] @ evs, status))"
  using assms by (simp add: main_def settings_none split: sum.split prod.split)

lemma run_query_submits:
  "run_query e g = Inr (evs, st) \<Longrightarrow> Ndb_query cs n \<in> set evs \<Longrightarrow>
   query_build \<lparr>argv = argv g, argc = argc g\<rparr> = Inr cs"
  by (auto simp: run_query_def finish_def split: sum.splits)

lemma run_search_no_query: "run_search e g = Inr (evs, st) \<Longrightarrow> Ndb_query cs n \<notin> set evs"
  by (auto simp: run_search_def finish_def split: sum.splits cell.splits)

lemma run_stat_no_query: "run_stat e = Inr (evs, st) \<Longrightarrow> Ndb_query cs n \<notin> set evs"
  by (auto simp: run_stat_def finish_def split: option.splits)

lemma run_import_no_query: "run_import g = Inr (evs, st) \<Longrightarrow> Ndb_query cs n \<notin> set evs"
  by (auto simp: run_import_def finish_def split: cell.splits if_splits)

lemma dispatch_submits:
  assumes "dispatch e g = Inr (evs, st)" "Ndb_query cs n \<in> set evs"
  shows "query_build \<lparr>argv = argv g, argc = argc g\<rparr> = Inr cs"
  using assms
  by (auto simp: dispatch_def finish_def split: sum.splits bool.splits
      dest: run_query_submits run_search_no_query run_stat_no_query run_import_no_query)

lemma main_submits:
  assumes "main e av = Inr (evs, st)" "Ndb_query cs n \<in> set evs"
  shows "\<exists>a. query_build a = Inr cs"
  using assms
  by (auto simp: main_def Let_def split: if_splits sum.splits dest: dispatch_submits)

subsection \<open>The invariant is kept by every branch of the scan\<close>

lemma query_k_agrees: "builder_agrees s \<Longrightarrow> query_k s = Inr s' \<Longrightarrow> builder_agrees s'"
  by (auto simp: builder_agrees_def query_k_def Let_def advance_def calls_simps builder_defs
      split: sum.splits option.splits if_splits)

lemma query_l_agrees: "builder_agrees s \<Longrightarrow> query_l s = Inr s' \<Longrightarrow> builder_agrees s'"
  by (auto simp: builder_agrees_def query_l_def Let_def advance_def end_if_current_def
      calls_simps builder_defs split: sum.splits option.splits if_splits)

lemma query_u_agrees: "builder_agrees s \<Longrightarrow> query_u s = Inr s' \<Longrightarrow> builder_agrees s'"
  by (auto simp: builder_agrees_def query_u_def Let_def advance_def end_if_current_def
      calls_simps builder_defs split: sum.splits option.splits if_splits)

lemma query_t_agrees: "builder_agrees s \<Longrightarrow> query_t s = Inr s' \<Longrightarrow> builder_agrees s'"
  by (auto simp: builder_agrees_def query_t_def Let_def advance_def end_if_current_def
      calls_simps builder_defs split: sum.splits option.splits if_splits cell.splits)

lemma query_step_agrees: "builder_agrees s \<Longrightarrow> query_step s = Inr s' \<Longrightarrow> builder_agrees s'"
  by (auto simp: query_step_def split: cell.splits if_splits
      dest: query_k_agrees query_l_agrees query_u_agrees query_t_agrees)

lemma query_scan_agrees: "builder_agrees s \<Longrightarrow> query_scan i s = Inr s' \<Longrightarrow> builder_agrees s'"
proof (induction i s rule: query_scan.induct)
  case (1 i s)
  show ?case
  proof (cases "argc s \<noteq> 0 \<and> i < 100")
    case True
    with "1.prems"(2) obtain s1
      where st: "query_step s = Inr s1" and sc: "query_scan (Suc i) s1 = Inr s'"
      by (auto simp: query_scan_step split: sum.splits)
    from "1.IH" [OF True st query_step_agrees [OF "1.prems"(1) st] sc] show ?thesis .
  next
    case False
    with "1.prems" show ?thesis by (auto simp: query_scan_stop)
  qed
qed

lemma initial_agrees: "builder_agrees \<lparr>argv = ts, argc = n, current_field = None, calls = []\<rparr>"
  by (simp add: builder_agrees_def filter_of_def apply_calls_Nil ndb_filter_init_def)

lemma end_if_current_agrees:
  "builder_agrees s \<Longrightarrow>
   starts_on_closed ndb_filter_init (calls (end_if_current s)) \<and>
   current (filter_of (calls (end_if_current s))) = None"
  by (auto simp: builder_agrees_def end_if_current_def calls_simps builder_defs
      split: sum.splits option.splits if_splits)

lemma query_build_scan:
  assumes "query_build a = Inr cs"
  obtains s where
    "query_scan 0 \<lparr>argv = drop 2 (argv a), argc = argc a - 2,
                   current_field = None, calls = []\<rparr> = Inr s"
    and "cs = calls (end_if_current s)" and "builder_agrees s"
proof -
  from assms obtain s where
    sc: "query_scan 0 \<lparr>argv = drop 2 (argv a), argc = argc a - 2,
                       current_field = None, calls = []\<rparr> = Inr s"
    and cs: "cs = calls (end_if_current s)"
    by (auto simp: query_build_def Let_def advance_def split: sum.splits)
  from query_scan_agrees [OF initial_agrees sc] have "builder_agrees s" .
  with sc cs show thesis by (rule that)
qed

subsection \<open>Single steps of the scan\<close>

lemma unknown_step:
  assumes "a \<noteq> ''-k''" "a \<noteq> ''-l''" "a \<noteq> ''-u''" "a \<noteq> ''-t''" "argv s = a # rest"
  shows "query_step s = Inr s"
  using assms by (simp add: query_step_def arg_at_def)

lemma unknown_scan:
  assumes "a \<noteq> ''-k''" "a \<noteq> ''-l''" "a \<noteq> ''-u''" "a \<noteq> ''-t''" "argv s = a # rest"
  shows "query_scan i s = Inr s"
proof (induction "100 - i" arbitrary: i)
  case 0
  then show ?case by (simp add: query_scan_stop)
next
  case (Suc n)
  then have "i < 100" and "n = 100 - Suc i" by simp_all
  with Suc.hyps(1) [of "Suc i"] show ?case
    by (cases "argc s = 0")
      (simp_all add: query_scan_stop query_scan_step unknown_step [OF assms])
qed

lemma kind_tokens_Cons: "kind_tokens (v # vs) = ''-k'' # v # kind_tokens vs"
  by (simp add: kind_tokens_def)

lemma query_k_continue:
  assumes "atoll (Str v) = Inr n"
  shows "query_step \<lparr>argv = ''-k'' # v # ts, argc = k,
                      current_field = Some NDB_FILTER_KINDS, calls = cs\<rparr> =
         Inr \<lparr>argv = ts, argc = k - 2, current_field = Some NDB_FILTER_KINDS,
              calls = cs @ [Add_int_element n]\<rparr>"
  using assms by (simp add: query_step_def query_k_def arg_at_def advance_def)

lemma query_k_open:
  assumes "atoll (Str v) = Inr n" and "cf \<noteq> Some NDB_FILTER_KINDS"
  shows "query_step \<lparr>argv = ''-k'' # v # ts, argc = k, current_field = cf, calls = cs\<rparr> =
         Inr \<lparr>argv = ts, argc = k - 2, current_field = Some NDB_FILTER_KINDS,
              calls = cs @ [Start_field NDB_FILTER_KINDS, Add_int_element n]\<rparr>"
  using assms by (simp add: query_step_def query_k_def arg_at_def advance_def)

lemma query_l_first:
  assumes "atol (Str v) = Inr n"
  shows "query_step \<lparr>argv = ''-l'' # v # ts, argc = k, current_field = None, calls = cs\<rparr> =
         Inr \<lparr>argv = ts, argc = k - 2, current_field = Some NDB_FILTER_LIMIT,
              calls = cs @ [Start_field NDB_FILTER_LIMIT, Add_int_element (int_of_long n),
                            End_field]\<rparr>"
  using assms
  by (simp add: query_step_def query_l_def arg_at_def advance_def end_if_current_def)

text \<open>
  A run of \<open>-k\<close> groups met with the KINDS field open: each iteration appends one value,
  until the tokens or the hundred iterations run out.
\<close>

lemma kinds_run:
  assumes "\<forall>v\<in>set vs. atoll (Str v) = Inr (decimal_value v)"
  shows "query_scan i \<lparr>argv = kind_tokens vs, argc = 2 * int (length vs),
                        current_field = Some NDB_FILTER_KINDS, calls = cs\<rparr> =
         Inr \<lparr>argv = kind_tokens (drop (100 - i) vs),
              argc = 2 * int (length (drop (100 - i) vs)),
              current_field = Some NDB_FILTER_KINDS,
              calls = cs @ map (\<lambda>v. Add_int_element (decimal_value v)) (take (100 - i) vs)\<rparr>"
  using assms
proof (induction vs arbitrary: i cs)
  case Nil
  then show ?case by (simp add: query_scan_stop kind_tokens_def)
next
  case (Cons v vs)
  show ?case
  proof (cases "i < 100")
    case False
    then show ?thesis by (simp add: query_scan_stop)
  next
    case True
    then have d: "100 - i = Suc (100 - Suc i)" by simp
    from Cons.prems have v: "atoll (Str v) = Inr (decimal_value v)"
      and vs: "\<forall>v\<in>set vs. atoll (Str v) = Inr (decimal_value v)" by simp_all
    let ?s = "\<lparr>argv = kind_tokens (v # vs), argc = 2 * int (length (v # vs)),
               current_field = Some NDB_FILTER_KINDS, calls = cs\<rparr>"
    let ?s' = "\<lparr>argv = kind_tokens vs, argc = 2 * int (length vs),
                current_field = Some NDB_FILTER_KINDS,
                calls = cs @ [Add_int_element (decimal_value v)]\<rparr>"
    have step: "query_step ?s = Inr ?s'"
      using query_k_continue [OF v, of "kind_tokens vs" "2 * int (length (v # vs))" cs]
      by (simp add: kind_tokens_Cons)
    have "query_scan i ?s =
            (case query_step ?s of Inl e \<Rightarrow> Inl e | Inr s' \<Rightarrow> query_scan (Suc i) s')"
      using True by (intro query_scan_step) simp_all
    also have "\<dots> = query_scan (Suc i) ?s'"
      by (simp only: step sum.case)
    also have "\<dots> = Inr \<lparr>argv = kind_tokens (drop (100 - Suc i) vs),
              argc = 2 * int (length (drop (100 - Suc i) vs)),
              current_field = Some NDB_FILTER_KINDS,
              calls = (cs @ [Add_int_element (decimal_value v)])
                      @ map (\<lambda>v. Add_int_element (decimal_value v)) (take (100 - Suc i) vs)\<rparr>"
      by (rule Cons.IH [OF vs])
    finally show ?thesis by (simp add: d)
  qed
qed

lemma kinds_run_from_start:
  assumes "\<forall>v\<in>set (v # vs). atoll (Str v) = Inr (decimal_value v)"
  shows "query_scan 0 \<lparr>argv = kind_tokens (v # vs), argc = 2 * int (length (v # vs)),
                        current_field = None, calls = []\<rparr> =
         Inr \<lparr>argv = kind_tokens (drop 99 vs), argc = 2 * int (length (drop 99 vs)),
              current_field = Some NDB_FILTER_KINDS,
              calls = Start_field NDB_FILTER_KINDS
                      # map (\<lambda>v. Add_int_element (decimal_value v)) (take 100 (v # vs))\<rparr>"
proof -
  from assms have v: "atoll (Str v) = Inr (decimal_value v)"
    and vs: "\<forall>v\<in>set vs. atoll (Str v) = Inr (decimal_value v)" by simp_all
  let ?s = "\<lparr>argv = kind_tokens (v # vs), argc = 2 * int (length (v # vs)),
             current_field = None, calls = []\<rparr>"
  let ?s' = "\<lparr>argv = kind_tokens vs, argc = 2 * int (length vs),
              current_field = Some NDB_FILTER_KINDS,
              calls = [Start_field NDB_FILTER_KINDS, Add_int_element (decimal_value v)]\<rparr>"
  have step: "query_step ?s = Inr ?s'"
    using query_k_open [OF v, of None "kind_tokens vs" "2 * int (length (v # vs))" "[]"]
    by (simp add: kind_tokens_Cons)
  have "query_scan 0 ?s =
          (case query_step ?s of Inl e \<Rightarrow> Inl e | Inr s' \<Rightarrow> query_scan (Suc 0) s')"
    by (intro query_scan_step) simp_all
  also have "\<dots> = query_scan (Suc 0) ?s'"
    by (simp only: step sum.case)
  also have "\<dots> = Inr \<lparr>argv = kind_tokens (drop (100 - Suc 0) vs),
              argc = 2 * int (length (drop (100 - Suc 0) vs)),
              current_field = Some NDB_FILTER_KINDS,
              calls = [Start_field NDB_FILTER_KINDS, Add_int_element (decimal_value v)]
                      @ map (\<lambda>v. Add_int_element (decimal_value v)) (take (100 - Suc 0) vs)\<rparr>"
    by (rule kinds_run [OF vs])
  finally show ?thesis by simp
qed

subsection \<open>What the builder makes of the calls\<close>

lemma add_ints:
  "apply_calls \<lparr>closed = cl, current = Some \<lparr>field_id = Plain k, elements = es\<rparr>\<rparr>
     (map (\<lambda>v. Add_int_element (g v)) vs) =
   \<lparr>closed = cl, current = Some \<lparr>field_id = Plain k,
                                 elements = es @ map (\<lambda>v. Int_element (g v)) vs\<rparr>\<rparr>"
  by (induction vs arbitrary: es) (simp_all add: apply_calls_Nil apply_calls_Cons builder_defs)

lemma end_field_closes: "current (ndb_filter_end_field f) = None"
  by (simp add: ndb_filter_end_field_def split: option.splits)

lemma end_field_idle: "current f = None \<Longrightarrow> ndb_filter_end_field f = f"
  by (simp add: ndb_filter_end_field_def)

lemma filter_of_snoc: "filter_of (cs @ [c]) = apply_call (filter_of cs) c"
  by (simp add: filter_of_def apply_calls_def)

lemma query_l_calls:
  assumes "query_l s = Inr s1"
  shows "current_field s1 = Some NDB_FILTER_LIMIT \<and> (\<exists>cs. calls s1 = cs @ [End_field])"
  using assms
  by (auto simp: query_l_def Let_def advance_def split: sum.splits)

subsection \<open>The search options\<close>

lemma run_search_text:
  assumes "run_search e g = Inr (evs, st)" "Ndb_text_search q cfg \<in> set evs"
  shows "\<exists>s. search_options \<lparr>argv = argv g, argc = argc g,
             search_config = ndb_default_text_search_config (default_search_limit e)\<rparr> = Inr s
           \<and> cfg = search_config s"
  using assms
  by (auto simp: run_search_def finish_def split: sum.splits cell.splits)

lemma run_query_no_text: "run_query e g = Inr (evs, st) \<Longrightarrow> Ndb_text_search q cfg \<notin> set evs"
  by (auto simp: run_query_def finish_def split: sum.splits)

lemma run_stat_no_text: "run_stat e = Inr (evs, st) \<Longrightarrow> Ndb_text_search q cfg \<notin> set evs"
  by (auto simp: run_stat_def finish_def split: option.splits)

lemma run_import_no_text: "run_import g = Inr (evs, st) \<Longrightarrow> Ndb_text_search q cfg \<notin> set evs"
  by (auto simp: run_import_def finish_def split: cell.splits if_splits)

lemma dispatch_text:
  assumes "dispatch e g = Inr (evs, st)" "Ndb_text_search q cfg \<in> set evs"
  shows "run_search e g = Inr (evs, st)"
  using assms
  by (auto simp: dispatch_def finish_def split: sum.splits bool.splits
      dest: run_query_no_text run_stat_no_text run_import_no_text)

lemma main_text:
  assumes "main e av = Inr (evs, st)" "Ndb_text_search q cfg \<in> set evs"
  shows "\<exists>g s. settings e \<lparr>argv = av, argc = int (length av), dir = ''.'', flags = 0\<rparr> = Inr g
           \<and> search_options \<lparr>argv = argv g, argc = argc g,
                search_config = ndb_default_text_search_config (default_search_limit e)\<rparr>
               = Inr s
           \<and> cfg = search_config s"
  using assms
  by (auto simp: main_def Let_def split: if_splits sum.splits
      dest!: dispatch_text dest: run_search_text)

lemma settings_step_tokens: "settings_step e g = Inr g' \<Longrightarrow> set (argv g') \<subseteq> set (argv g)"
  by (auto simp: settings_step_def advance_def split: cell.splits if_splits bool.splits
      dest: in_set_dropD)

lemma settings_tokens: "settings e g = Inr g' \<Longrightarrow> set (argv g') \<subseteq> set (argv g)"
  by (auto simp: settings_def split: sum.splits dest!: settings_step_tokens)

lemma arg_at_member: "arg_at a k = Str t \<Longrightarrow> t \<in> set (argv a)"
  by (auto simp: arg_at_def split: if_splits)

lemma search_step_without:
  assumes "search_step s = Inr s'" "''--oldest-first'' \<notin> set (argv s)"
  shows "cfg_order (search_config s') = cfg_order (search_config s)
       \<and> set (argv s') \<subseteq> set (argv s)"
proof (cases "arg_at s 2")
  case (Str a)
  with assms(2) have "a \<noteq> ''--oldest-first''" by (auto dest: arg_at_member)
  with assms(1) Str show ?thesis
    by (auto simp: search_step_def advance_def ndb_text_search_config_set_limit_def
        split: if_splits sum.splits dest: in_set_dropD)
qed (use assms(1) in \<open>simp_all add: search_step_def\<close>)

lemma search_options_without:
  assumes "search_options s = Inr s'" "''--oldest-first'' \<notin> set (argv s)"
  shows "cfg_order (search_config s') = cfg_order (search_config s)"
proof -
  from assms(1) obtain s1 where 1: "search_step s = Inr s1" and 2: "search_step s1 = Inr s'"
    by (auto simp: search_options_def split: sum.splits)
  from search_step_without [OF 1 assms(2)]
  have o1: "cfg_order (search_config s1) = cfg_order (search_config s)"
    and "set (argv s1) \<subseteq> set (argv s)" by simp_all
  with assms(2) have "''--oldest-first'' \<notin> set (argv s1)" by auto
  from search_step_without [OF 2 this] o1 show ?thesis by simp
qed

lemma search_step_keeps_ascending:
  assumes "search_step s = Inr s'" "cfg_order (search_config s) = NDB_ORDER_ASCENDING"
  shows "cfg_order (search_config s') = NDB_ORDER_ASCENDING"
  using assms
  by (auto simp: search_step_def advance_def ndb_text_search_config_set_limit_def
      ndb_text_search_config_set_order_def split: cell.splits if_splits sum.splits)

lemma search_step_oldest_first:
  assumes "search_step s = Inr s'" "argv s = p # c # ''--oldest-first'' # r"
  shows "cfg_order (search_config s') = NDB_ORDER_ASCENDING"
  using assms
  by (auto simp: search_step_def arg_at_def advance_def ndb_text_search_config_set_order_def)

lemma search_step_limit:
  assumes "search_step s = Inr s'" "argv s = p # c # l # n # r" "l = ''--limit'' \<or> l = ''-l''"
  shows "argv s' = l # n # r"
  using assms
  by (auto simp: search_step_def arg_at_def advance_def split: sum.splits)

lemma search_step_limit_order:
  assumes "search_step s = Inr s'" "argv s = p # c # l # n # r" "l = ''--limit'' \<or> l = ''-l''"
  shows "cfg_order (search_config s') = cfg_order (search_config s)"
  using assms
  by (auto simp: search_step_def arg_at_def advance_def ndb_text_search_config_set_limit_def
      split: sum.splits)

lemma search_options_two_limits:
  assumes "search_options s = Inr s'" "argv s = p # c # l # n # l' # n' # r"
    "l = ''--limit'' \<or> l = ''-l''" "l' = ''--limit'' \<or> l' = ''-l''"
  shows "cfg_order (search_config s') = cfg_order (search_config s)"
proof -
  from assms(1) obtain s1 where 1: "search_step s = Inr s1" and 2: "search_step s1 = Inr s'"
    by (auto simp: search_options_def split: sum.splits)
  from search_step_limit [OF 1 assms(2,3)] have "argv s1 = l # n # l' # n' # r" .
  from search_step_limit_order [OF 2 this assms(4)] search_step_limit_order [OF 1 assms(2,3)]
  show ?thesis by simp
qed

lemma search_options_first:
  assumes "search_options s = Inr s'" "argv s = p # c # ''--oldest-first'' # r"
  shows "cfg_order (search_config s') = NDB_ORDER_ASCENDING"
proof -
  from assms(1) obtain s1 where 1: "search_step s = Inr s1" and 2: "search_step s1 = Inr s'"
    by (auto simp: search_options_def split: sum.splits)
  from search_step_keeps_ascending [OF 2 search_step_oldest_first [OF 1 assms(2)]]
  show ?thesis .
qed

lemma search_options_second:
  assumes "search_options s = Inr s'" "argv s = p # c # l # n # ''--oldest-first'' # r"
    "l = ''--limit'' \<or> l = ''-l''"
  shows "cfg_order (search_config s') = NDB_ORDER_ASCENDING"
proof -
  from assms(1) obtain s1 where 1: "search_step s = Inr s1" and 2: "search_step s1 = Inr s'"
    by (auto simp: search_options_def split: sum.splits)
  from search_step_limit [OF 1 assms(2,3)] have "argv s1 = l # n # ''--oldest-first'' # r" .
  from search_step_oldest_first [OF 2 this] show ?thesis .
qed

subsection \<open>The two loops of the stats report\<close>

lemma dbs_loop_output:
  "\<exists>tot'. dbs_loop dbn stat i tot acc =
     (tot', acc @ concat (map (\<lambda>j. [Name_tab (dbn j), print_stat_counts (dbs stat ! j)])
                             [i ..< NDB_DBS stat]))"
proof (induction dbn stat i tot acc rule: dbs_loop.induct)
  case (1 dbn stat i tot acc)
  show ?case
  proof (cases "i < NDB_DBS stat")
    case True
    from "1.IH" [OF True refl refl] obtain tot' where
      "dbs_loop dbn stat (Suc i)
         (tot\<lparr>count := count tot + count (dbs stat ! i),
              key_size := key_size tot + key_size (dbs stat ! i),
              value_size := value_size tot + value_size (dbs stat ! i)\<rparr>)
         (acc @ [Name_tab (dbn i), print_stat_counts (dbs stat ! i)]) =
       (tot', (acc @ [Name_tab (dbn i), print_stat_counts (dbs stat ! i)]) @
              concat (map (\<lambda>j. [Name_tab (dbn j), print_stat_counts (dbs stat ! j)])
                        [Suc i ..< NDB_DBS stat]))"
      by blast
    with True show ?thesis
      by (subst dbs_loop.simps) (simp add: Let_def upt_conv_Cons)
  next
    case False
    then show ?thesis by (subst dbs_loop.simps) simp
  qed
qed

lemma kinds_loop_output:
  "kinds_loop kn stat i acc =
     acc @ concat (map (\<lambda>j. [Name_tab (kn j), print_stat_counts (common_kinds stat ! j)])
                     (filter (\<lambda>j. count (common_kinds stat ! j) \<noteq> 0)
                        [i ..< NDB_CKIND_COUNT stat]))"
proof (induction kn stat i acc rule: kinds_loop.induct)
  case (1 kn stat i acc)
  show ?case
  proof (cases "i < NDB_CKIND_COUNT stat")
    case True
    show ?thesis
    proof (cases "count (common_kinds stat ! i) = 0")
      case zero: True
      from "1.IH"(1) [OF True refl zero] True zero show ?thesis
        by (subst kinds_loop.simps) (simp add: Let_def upt_conv_Cons)
    next
      case nonzero: False
      from "1.IH"(2) [OF True refl nonzero] True nonzero show ?thesis
        by (subst kinds_loop.simps) (simp add: Let_def upt_conv_Cons)
    qed
  next
    case False
    then show ?thesis by (subst kinds_loop.simps) simp
  qed
qed

lemma kinds_section_after:
  "Kinds_banner \<notin> set pre \<Longrightarrow> kinds_section (pre @ Kinds_banner # rest) = rest"
  by (induction pre) (auto simp: kinds_section_def)

section \<open>The claims\<close>

text \<open>
  C1, as amended. \<open>ndb query\<close> with nothing after the command does not reach the query
  branch, which asks for \<open>argc >= 3\<close>: once the store is open the program prints the usage
  text and returns 1, and no filter is built or submitted. The block that builds the
  filter, given an argument vector with no token after the command, makes no call on the
  filter at all, so no field is ever started.
\<close>

theorem query_without_tokens_prints_usage:
  assumes "ndb_init_ok e"
  shows "main e [p, ''query''] =
           Inr ([Ndb_config_set_mapsize 1099511627776, Ndb_config_set_flags 0,
                 Stderr_using_db ''.'', Ndb_init ''.'', Print_usage], 1)
         \<and> query_build \<lparr>argv = [p, ''query''], argc = 2\<rparr> = Inr []"
proof
  show "main e [p, ''query''] =
           Inr ([Ndb_config_set_mapsize 1099511627776, Ndb_config_set_flags 0,
                 Stderr_using_db ''.'', Ndb_init ''.'', Print_usage], 1)"
    using assms
    by (simp add: main_command dispatch_def command_is_def streq_def arg_at_def)
  show "query_build \<lparr>argv = [p, ''query''], argc = 2\<rparr> = Inr []"
    by (simp add: query_build_def advance_def query_scan_stop end_if_current_def)
qed

theorem query_without_tokens_prints_usage_witness:
  "ndb_init_ok sample_env
   \<and> main sample_env [''ndb'', ''query''] =
           Inr ([Ndb_config_set_mapsize 1099511627776, Ndb_config_set_flags 0,
                 Stderr_using_db ''.'', Ndb_init ''.'', Print_usage], 1)
   \<and> query_build \<lparr>argv = [''ndb'', ''query''], argc = 2\<rparr> = Inr []"
proof -
  have h: "ndb_init_ok sample_env" by (simp add: sample_env_def)
  from query_without_tokens_prints_usage [OF h, of "''ndb''"] h show ?thesis by simp
qed

text \<open>
  C1 as stated fails: for the argument vector \<open>ndb query\<close> the run ends in the usage text
  with status 1, and \<open>ndb_query\<close> is never called.
\<close>

theorem query_without_tokens_counterexample:
  "main sample_env [''ndb'', ''query''] =
     Inr ([Ndb_config_set_mapsize 1099511627776, Ndb_config_set_flags 0,
           Stderr_using_db ''.'', Ndb_init ''.'', Print_usage], 1)"
  by code_simp

text \<open>
  C2, as amended. A token that is none of \<open>-k\<close>, \<open>-l\<close>, \<open>-u\<close>, \<open>-t\<close> is ignored but never
  passed: an iteration that meets it leaves \<open>argv\<close>, \<open>argc\<close>, \<open>current_field\<close> and the
  calls made so far as they are, only the loop counter advances, so the scan ends at
  its bound with that token still first and whatever was built before it. The groups
  after it are not processed; when it is the first token after the command, no call is
  made on the filter at all.
\<close>

theorem unknown_token_stalls_scan:
  assumes "a \<notin> {''-k'', ''-l'', ''-u'', ''-t''}" and "argv s = a # rest"
  shows "query_step s = Inr s
       \<and> query_scan i s = Inr s
       \<and> query_build \<lparr>argv = p # q # a # rest, argc = n\<rparr> = Inr []"
proof (intro conjI)
  from assms(1) have a: "a \<noteq> ''-k''" "a \<noteq> ''-l''" "a \<noteq> ''-u''" "a \<noteq> ''-t''" by simp_all
  show "query_step s = Inr s" by (rule unknown_step [OF a assms(2)])
  show "query_scan i s = Inr s" by (rule unknown_scan [OF a assms(2)])
  have "query_scan 0 \<lparr>argv = a # rest, argc = n - 2, current_field = None, calls = []\<rparr> =
          Inr \<lparr>argv = a # rest, argc = n - 2, current_field = None, calls = []\<rparr>"
    by (rule unknown_scan [OF a]) simp
  then show "query_build \<lparr>argv = p # q # a # rest, argc = n\<rparr> = Inr []"
    by (simp add: query_build_def advance_def end_if_current_def)
qed

theorem unknown_token_stalls_scan_witness:
  "''x'' \<notin> {''-k'', ''-l'', ''-u'', ''-t''}
   \<and> query_scan 0 \<lparr>argv = [''x'', ''-k'', ''1''], argc = 3, current_field = None, calls = []\<rparr> =
       Inr \<lparr>argv = [''x'', ''-k'', ''1''], argc = 3, current_field = None, calls = []\<rparr>
   \<and> query_build \<lparr>argv = [''ndb'', ''query'', ''x'', ''-k'', ''1''], argc = 5\<rparr> = Inr []"
proof -
  have h: "''x'' \<notin> {''-k'', ''-l'', ''-u'', ''-t''}" by simp
  have "argv \<lparr>argv = [''x'', ''-k'', ''1''], argc = 3, current_field = None, calls = []\<rparr> =
          ''x'' # [''-k'', ''1'']" by simp
  from unknown_token_stalls_scan [OF h this, of 0 "''ndb''" "''query''" 5] h
  show ?thesis by simp
qed

text \<open>
  C2 as stated fails: in \<open>ndb query x -k 1\<close> the group \<open>-k 1\<close> after the unknown token
  \<open>x\<close> never reaches the filter; the filter is submitted without any field.
\<close>

theorem unknown_token_counterexample:
  "main sample_env [''ndb'', ''query'', ''x'', ''-k'', ''1''] =
     Inr ([Ndb_config_set_mapsize 1099511627776, Ndb_config_set_flags 0,
           Stderr_using_db ''.'', Ndb_init ''.'', Ndb_begin_query, Ndb_query [] 10000,
           Stderr_results 1, Print_note 0, Ndb_end_query, Ndb_destroy], 0)"
  by code_simp

text \<open>
  C3, as amended. For a run of one or more \<open>-k\<close> groups after the command, with values
  that \<open>atoll\<close> converts, the calls on the filter are one \<open>start_field(KINDS)\<close>, one
  \<open>add_int_element\<close> for each of the first hundred values, in input order, and the final
  \<open>end_field\<close>: the filter has exactly one KINDS field, holding those values. The scan
  runs at most a hundred iterations, so the values of later groups are not in the field.
\<close>

theorem kinds_accumulate:
  assumes "vs \<noteq> []" and "\<forall>v\<in>set vs. atoll (Str v) = Inr (decimal_value v)"
  shows "query_build \<lparr>argv = p # q # kind_tokens vs, argc = 2 + 2 * int (length vs)\<rparr> =
           Inr (Start_field NDB_FILTER_KINDS
                # map (\<lambda>v. Add_int_element (decimal_value v)) (take 100 vs) @ [End_field])
       \<and> filter_of (Start_field NDB_FILTER_KINDS
                # map (\<lambda>v. Add_int_element (decimal_value v)) (take 100 vs) @ [End_field]) =
           \<lparr>closed = [\<lparr>field_id = Plain NDB_FILTER_KINDS,
                       elements = map (\<lambda>v. Int_element (decimal_value v)) (take 100 vs)\<rparr>],
            current = None\<rparr>"
proof
  from assms(1) obtain v vs' where vs: "vs = v # vs'" by (cases vs) auto
  from assms(2) have "\<forall>v\<in>set (v # vs'). atoll (Str v) = Inr (decimal_value v)"
    by (simp add: vs)
  from kinds_run_from_start [OF this]
  have scan: "query_scan 0 \<lparr>argv = kind_tokens vs, argc = 2 * int (length vs),
                            current_field = None, calls = []\<rparr> =
         Inr \<lparr>argv = kind_tokens (drop 99 vs'), argc = 2 * int (length (drop 99 vs')),
              current_field = Some NDB_FILTER_KINDS,
              calls = Start_field NDB_FILTER_KINDS
                      # map (\<lambda>v. Add_int_element (decimal_value v)) (take 100 vs)\<rparr>"
    by (simp add: vs)
  have "advance 2 \<lparr>argv = p # q # kind_tokens vs, argc = 2 + 2 * int (length vs)\<rparr> =
          \<lparr>argv = kind_tokens vs, argc = 2 * int (length vs)\<rparr>"
    by (simp add: advance_def)
  then show "query_build \<lparr>argv = p # q # kind_tokens vs, argc = 2 + 2 * int (length vs)\<rparr> =
           Inr (Start_field NDB_FILTER_KINDS
                # map (\<lambda>v. Add_int_element (decimal_value v)) (take 100 vs) @ [End_field])"
    unfolding query_build_def by (simp add: scan end_if_current_def)
  have "filter_of (Start_field NDB_FILTER_KINDS
                # map (\<lambda>v. Add_int_element (decimal_value v)) (take 100 vs) @ [End_field]) =
        ndb_filter_end_field
          (apply_calls (ndb_filter_start_field ndb_filter_init NDB_FILTER_KINDS)
             (map (\<lambda>v. Add_int_element (decimal_value v)) (take 100 vs)))"
    by (simp add: filter_of_def apply_calls_Cons apply_calls_append apply_calls_Nil)
  also have "ndb_filter_start_field ndb_filter_init NDB_FILTER_KINDS =
      \<lparr>closed = [], current = Some \<lparr>field_id = Plain NDB_FILTER_KINDS, elements = []\<rparr>\<rparr>"
    by (simp add: builder_defs ndb_filter_init_def)
  finally show "filter_of (Start_field NDB_FILTER_KINDS
                # map (\<lambda>v. Add_int_element (decimal_value v)) (take 100 vs) @ [End_field]) =
           \<lparr>closed = [\<lparr>field_id = Plain NDB_FILTER_KINDS,
                       elements = map (\<lambda>v. Int_element (decimal_value v)) (take 100 vs)\<rparr>],
            current = None\<rparr>"
    by (simp add: add_ints ndb_filter_end_field_def)
qed

theorem kinds_accumulate_witness:
  "[''1'', ''2'', ''3''] \<noteq> []
   \<and> atoll (Str ''1'') = Inr 1 \<and> atoll (Str ''2'') = Inr 2 \<and> atoll (Str ''3'') = Inr 3
   \<and> query_build \<lparr>argv = [''ndb'', ''query'', ''-k'', ''1'', ''-k'', ''2'', ''-k'', ''3''],
                   argc = 8\<rparr> =
       Inr [Start_field NDB_FILTER_KINDS, Add_int_element 1, Add_int_element 2,
            Add_int_element 3, End_field]
   \<and> filter_of [Start_field NDB_FILTER_KINDS, Add_int_element 1, Add_int_element 2,
                Add_int_element 3, End_field] =
       \<lparr>closed = [\<lparr>field_id = Plain NDB_FILTER_KINDS,
                   elements = [Int_element 1, Int_element 2, Int_element 3]\<rparr>],
        current = None\<rparr>"
proof -
  have d: "decimal_value ''1'' = 1" "decimal_value ''2'' = 2" "decimal_value ''3'' = 3"
    by (simp_all add: decimal_value_def isspace_def isdigit_def)
  have h1: "[''1'', ''2'', ''3''] \<noteq> ([] :: string list)" by simp
  have h2: "\<forall>v\<in>set [''1'', ''2'', ''3'']. atoll (Str v) = Inr (decimal_value v)"
    by (simp add: atoll_def ato_def d)
  from kinds_accumulate [OF h1 h2, of "''ndb''" "''query''"] h2
  show ?thesis by (simp add: kind_tokens_def d)
qed

text \<open>
  C3 as stated fails for long runs: of a hundred groups \<open>-k 1\<close> followed by \<open>-k 2\<close>, the
  kind 2 is not among the elements added to the KINDS field.
\<close>

theorem kinds_run_counterexample:
  "query_build \<lparr>argv = ''ndb'' # ''query'' # concat (replicate 100 [''-k'', ''1''])
                         @ [''-k'', ''2''],
                 argc = 204\<rparr> =
     Inr (Start_field NDB_FILTER_KINDS # replicate 100 (Add_int_element 1) @ [End_field])"
  by code_simp

text \<open>
  C4. Whenever the program submits a filter, no call of \<open>ndb_filter_start_field\<close> or
  \<open>ndb_filter_start_tag_field\<close> made while building it found a field open; the builder
  holds at most one open field by construction.
\<close>

theorem no_start_on_open_field:
  assumes "main e av = Inr (evs, st)" and "Ndb_query cs n \<in> set evs"
  shows "starts_on_closed ndb_filter_init cs"
proof -
  from main_submits [OF assms] obtain a where "query_build a = Inr cs" ..
  then obtain s where "cs = calls (end_if_current s)" and "builder_agrees s"
    by (rule query_build_scan)
  then show ?thesis using end_if_current_agrees [of s] by simp
qed

theorem no_start_on_open_field_witness:
  "main sample_env [''ndb'', ''query'', ''-k'', ''1'', ''-l'', ''2'', ''-k'', ''3''] =
     Inr ([Ndb_config_set_mapsize 1099511627776, Ndb_config_set_flags 0,
           Stderr_using_db ''.'', Ndb_init ''.'', Ndb_begin_query,
           Ndb_query
             [Start_field NDB_FILTER_KINDS, Add_int_element 1, End_field,
              Start_field NDB_FILTER_LIMIT, Add_int_element 2, End_field,
              Start_field NDB_FILTER_KINDS, Add_int_element 3, End_field] 10000,
           Stderr_results 1, Print_note 0, Ndb_end_query, Ndb_destroy], 0)
   \<and> starts_on_closed ndb_filter_init
         [Start_field NDB_FILTER_KINDS, Add_int_element 1, End_field,
          Start_field NDB_FILTER_LIMIT, Add_int_element 2, End_field,
          Start_field NDB_FILTER_KINDS, Add_int_element 3, End_field]"
proof -
  have run: "main sample_env [''ndb'', ''query'', ''-k'', ''1'', ''-l'', ''2'', ''-k'', ''3''] =
     Inr ([Ndb_config_set_mapsize 1099511627776, Ndb_config_set_flags 0,
           Stderr_using_db ''.'', Ndb_init ''.'', Ndb_begin_query,
           Ndb_query
             [Start_field NDB_FILTER_KINDS, Add_int_element 1, End_field,
              Start_field NDB_FILTER_LIMIT, Add_int_element 2, End_field,
              Start_field NDB_FILTER_KINDS, Add_int_element 3, End_field] 10000,
           Stderr_results 1, Print_note 0, Ndb_end_query, Ndb_destroy], 0)"
    by code_simp
  have "Ndb_query
             [Start_field NDB_FILTER_KINDS, Add_int_element 1, End_field,
              Start_field NDB_FILTER_LIMIT, Add_int_element 2, End_field,
              Start_field NDB_FILTER_KINDS, Add_int_element 3, End_field] 10000
        \<in> set [Ndb_config_set_mapsize 1099511627776, Ndb_config_set_flags 0,
           Stderr_using_db ''.'', Ndb_init ''.'', Ndb_begin_query,
           Ndb_query
             [Start_field NDB_FILTER_KINDS, Add_int_element 1, End_field,
              Start_field NDB_FILTER_LIMIT, Add_int_element 2, End_field,
              Start_field NDB_FILTER_KINDS, Add_int_element 3, End_field] 10000,
           Stderr_results 1, Print_note 0, Ndb_end_query, Ndb_destroy]"
    by simp
  from no_start_on_open_field [OF run this] run show ?thesis by simp
qed

text \<open>
  C5. Whenever the program submits a filter, the builder has no field open at that
  moment. The calls submitted are those of the scan followed by the closing step; a
  field that the scan leaves open is a KINDS field, and the closing step closes it.
\<close>

theorem submitted_filter_is_closed:
  "(main e av = Inr (evs, st) \<and> Ndb_query cs n \<in> set evs
      \<longrightarrow> current (filter_of cs) = None)
   \<and> (query_scan 0 \<lparr>argv = ts, argc = k, current_field = None, calls = []\<rparr> = Inr s
      \<longrightarrow> (case current (filter_of (calls s)) of
             None \<Rightarrow> True
           | Some fl \<Rightarrow> field_id fl = Plain NDB_FILTER_KINDS)
          \<and> current (filter_of (calls (end_if_current s))) = None)"
proof (intro conjI impI)
  assume "main e av = Inr (evs, st) \<and> Ndb_query cs n \<in> set evs"
  then have "\<exists>a. query_build a = Inr cs" by (auto dest: main_submits)
  then obtain a where "query_build a = Inr cs" ..
  then obtain s' where "cs = calls (end_if_current s')" and "builder_agrees s'"
    by (rule query_build_scan)
  then show "current (filter_of cs) = None"
    using end_if_current_agrees [of s'] by simp
next
  assume "query_scan 0 \<lparr>argv = ts, argc = k, current_field = None, calls = []\<rparr> = Inr s"
  from query_scan_agrees [OF initial_agrees this] have agr: "builder_agrees s" .
  then show "case current (filter_of (calls s)) of
               None \<Rightarrow> True
             | Some fl \<Rightarrow> field_id fl = Plain NDB_FILTER_KINDS"
    by (auto simp: builder_agrees_def split: option.splits)
  from agr show "current (filter_of (calls (end_if_current s))) = None"
    using end_if_current_agrees [of s] by simp
qed

theorem submitted_filter_is_closed_witness:
  "main sample_env [''ndb'', ''query'', ''-k'', ''1''] =
     Inr ([Ndb_config_set_mapsize 1099511627776, Ndb_config_set_flags 0,
           Stderr_using_db ''.'', Ndb_init ''.'', Ndb_begin_query,
           Ndb_query [Start_field NDB_FILTER_KINDS, Add_int_element 1, End_field] 10000,
           Stderr_results 1, Print_note 0, Ndb_end_query, Ndb_destroy], 0)
   \<and> current (filter_of [Start_field NDB_FILTER_KINDS, Add_int_element 1, End_field]) = None
   \<and> query_scan 0 \<lparr>argv = [''-k'', ''1''], argc = 2, current_field = None, calls = []\<rparr> =
       Inr \<lparr>argv = [], argc = 0, current_field = Some NDB_FILTER_KINDS,
            calls = [Start_field NDB_FILTER_KINDS, Add_int_element 1]\<rparr>
   \<and> current (filter_of [Start_field NDB_FILTER_KINDS, Add_int_element 1]) =
       Some \<lparr>field_id = Plain NDB_FILTER_KINDS, elements = [Int_element 1]\<rparr>"
proof -
  have run: "main sample_env [''ndb'', ''query'', ''-k'', ''1''] =
     Inr ([Ndb_config_set_mapsize 1099511627776, Ndb_config_set_flags 0,
           Stderr_using_db ''.'', Ndb_init ''.'', Ndb_begin_query,
           Ndb_query [Start_field NDB_FILTER_KINDS, Add_int_element 1, End_field] 10000,
           Stderr_results 1, Print_note 0, Ndb_end_query, Ndb_destroy], 0)"
    by code_simp
  have scan: "query_scan 0 \<lparr>argv = [''-k'', ''1''], argc = 2, current_field = None, calls = []\<rparr> =
       Inr \<lparr>argv = [], argc = 0, current_field = Some NDB_FILTER_KINDS,
            calls = [Start_field NDB_FILTER_KINDS, Add_int_element 1]\<rparr>"
    by code_simp
  have opened: "current (filter_of [Start_field NDB_FILTER_KINDS, Add_int_element 1]) =
       Some \<lparr>field_id = Plain NDB_FILTER_KINDS, elements = [Int_element 1]\<rparr>"
    by code_simp
  have "current (filter_of [Start_field NDB_FILTER_KINDS, Add_int_element 1, End_field]) = None"
    using submitted_filter_is_closed
      [of sample_env "[''ndb'', ''query'', ''-k'', ''1'']" _ 0
          "[Start_field NDB_FILTER_KINDS, Add_int_element 1, End_field]" 10000
          "[''-k'', ''1'']" 2
          "\<lparr>argv = [], argc = 0, current_field = Some NDB_FILTER_KINDS,
            calls = [Start_field NDB_FILTER_KINDS, Add_int_element 1]\<rparr>"]
      run scan
    by (simp add: end_if_current_def)
  with run scan opened show ?thesis by simp
qed

text \<open>
  C6. A \<open>-l\<close> group met with no field open starts the LIMIT field, adds the one integer
  and ends the field within the same iteration, so the builder has no field open when
  the next group is read. For the tokens \<open>-l a -k b\<close> the \<open>-k\<close> group then starts a KINDS
  field with no call of \<open>end_field\<close> in between, and the submitted filter is the LIMIT
  field followed by the KINDS field.
\<close>

theorem limit_closes_itself:
  assumes "atol (Str a) = Inr x" and "atoll (Str b) = Inr y"
  shows "query_step \<lparr>argv = [''-l'', a, ''-k'', b], argc = 4,
                      current_field = None, calls = []\<rparr> =
           Inr \<lparr>argv = [''-k'', b], argc = 2, current_field = Some NDB_FILTER_LIMIT,
                calls = [Start_field NDB_FILTER_LIMIT, Add_int_element (int_of_long x),
                         End_field]\<rparr>
       \<and> current (filter_of [Start_field NDB_FILTER_LIMIT, Add_int_element (int_of_long x),
                              End_field]) = None
       \<and> query_build \<lparr>argv = [p, q, ''-l'', a, ''-k'', b], argc = 6\<rparr> =
           Inr [Start_field NDB_FILTER_LIMIT, Add_int_element (int_of_long x), End_field,
                Start_field NDB_FILTER_KINDS, Add_int_element y, End_field]
       \<and> filter_of [Start_field NDB_FILTER_LIMIT, Add_int_element (int_of_long x), End_field,
                    Start_field NDB_FILTER_KINDS, Add_int_element y, End_field] =
           \<lparr>closed = [\<lparr>field_id = Plain NDB_FILTER_LIMIT,
                       elements = [Int_element (int_of_long x)]\<rparr>,
                      \<lparr>field_id = Plain NDB_FILTER_KINDS, elements = [Int_element y]\<rparr>],
            current = None\<rparr>"
proof (intro conjI)
  show l: "query_step \<lparr>argv = [''-l'', a, ''-k'', b], argc = 4,
                        current_field = None, calls = []\<rparr> =
           Inr \<lparr>argv = [''-k'', b], argc = 2, current_field = Some NDB_FILTER_LIMIT,
                calls = [Start_field NDB_FILTER_LIMIT, Add_int_element (int_of_long x),
                         End_field]\<rparr>"
    using query_l_first [OF assms(1), of "[''-k'', b]" 4 "[]"] by simp
  have k: "query_step \<lparr>argv = [''-k'', b], argc = 2, current_field = Some NDB_FILTER_LIMIT,
                calls = [Start_field NDB_FILTER_LIMIT, Add_int_element (int_of_long x),
                         End_field]\<rparr> =
           Inr \<lparr>argv = [], argc = 0, current_field = Some NDB_FILTER_KINDS,
                calls = [Start_field NDB_FILTER_LIMIT, Add_int_element (int_of_long x),
                         End_field, Start_field NDB_FILTER_KINDS, Add_int_element y]\<rparr>"
    using query_k_open [OF assms(2), of "Some NDB_FILTER_LIMIT" "[]" 2] by simp
  show "query_build \<lparr>argv = [p, q, ''-l'', a, ''-k'', b], argc = 6\<rparr> =
           Inr [Start_field NDB_FILTER_LIMIT, Add_int_element (int_of_long x), End_field,
                Start_field NDB_FILTER_KINDS, Add_int_element y, End_field]"
    by (simp add: query_build_def advance_def query_scan_step query_scan_stop l k
        end_if_current_def)
  show "current (filter_of [Start_field NDB_FILTER_LIMIT, Add_int_element (int_of_long x),
                              End_field]) = None"
    by (simp add: filter_of_def apply_calls_def builder_defs ndb_filter_init_def)
  show "filter_of [Start_field NDB_FILTER_LIMIT, Add_int_element (int_of_long x), End_field,
                    Start_field NDB_FILTER_KINDS, Add_int_element y, End_field] =
           \<lparr>closed = [\<lparr>field_id = Plain NDB_FILTER_LIMIT,
                       elements = [Int_element (int_of_long x)]\<rparr>,
                      \<lparr>field_id = Plain NDB_FILTER_KINDS, elements = [Int_element y]\<rparr>],
            current = None\<rparr>"
    by (simp add: filter_of_def apply_calls_def builder_defs ndb_filter_init_def)
qed

theorem limit_closes_itself_witness:
  "atol (Str ''10'') = Inr 10 \<and> atoll (Str ''5'') = Inr 5
   \<and> query_build \<lparr>argv = [''ndb'', ''query'', ''-l'', ''10'', ''-k'', ''5''], argc = 6\<rparr> =
       Inr [Start_field NDB_FILTER_LIMIT, Add_int_element 10, End_field,
            Start_field NDB_FILTER_KINDS, Add_int_element 5, End_field]
   \<and> filter_of [Start_field NDB_FILTER_LIMIT, Add_int_element 10, End_field,
                Start_field NDB_FILTER_KINDS, Add_int_element 5, End_field] =
       \<lparr>closed = [\<lparr>field_id = Plain NDB_FILTER_LIMIT, elements = [Int_element 10]\<rparr>,
                  \<lparr>field_id = Plain NDB_FILTER_KINDS, elements = [Int_element 5]\<rparr>],
        current = None\<rparr>"
proof -
  have a: "atol (Str ''10'') = Inr 10" by code_simp
  have b: "atoll (Str ''5'') = Inr 5" by code_simp
  have c: "int_of_long 10 = 10" by (simp add: int_of_long_def)
  from limit_closes_itself [OF a b, of "''ndb''" "''query''"] a b
  show ?thesis by (simp add: c)
qed

text \<open>
  C7, as amended. Whenever the program submits a text search: if \<open>--oldest-first\<close>
  occurs nowhere on the command line, the order of the request is the default,
  descending; if, once the settings are consumed, \<open>--oldest-first\<close> is the first token
  after the command, or the first token after one leading \<open>--limit N\<close> (or \<open>-l N\<close>), the
  order is ascending. The option loop runs two iterations: after two leading \<open>--limit N\<close>
  groups it has ended, whatever follows is not read as an option, and the order is
  descending.
\<close>

theorem search_order:
  assumes "main e av = Inr (evs, st)" and "Ndb_text_search query cfg \<in> set evs"
    and "settings e \<lparr>argv = av, argc = int (length av), dir = ''.'', flags = 0\<rparr> = Inr g"
  shows "(''--oldest-first'' \<notin> set av \<longrightarrow> cfg_order cfg = NDB_ORDER_DESCENDING)
       \<and> (argv g = p # c # ''--oldest-first'' # r \<longrightarrow> cfg_order cfg = NDB_ORDER_ASCENDING)
       \<and> ((l = ''--limit'' \<or> l = ''-l'') \<and> argv g = p # c # l # n # ''--oldest-first'' # r
            \<longrightarrow> cfg_order cfg = NDB_ORDER_ASCENDING)
       \<and> ((l = ''--limit'' \<or> l = ''-l'') \<and> (l' = ''--limit'' \<or> l' = ''-l'')
            \<and> argv g = p # c # l # n # l' # n' # r
            \<longrightarrow> cfg_order cfg = NDB_ORDER_DESCENDING)"
proof -
  from main_text [OF assms(1,2)] assms(3) obtain s where
    opts: "search_options \<lparr>argv = argv g, argc = argc g,
             search_config = ndb_default_text_search_config (default_search_limit e)\<rparr> = Inr s"
    and cfg: "cfg = search_config s"
    by auto
  from settings_tokens [OF assms(3)] have sub: "set (argv g) \<subseteq> set av" by simp
  have omitted: "''--oldest-first'' \<notin> set av \<longrightarrow> cfg_order cfg = NDB_ORDER_DESCENDING"
  proof
    assume "''--oldest-first'' \<notin> set av"
    with sub have "''--oldest-first'' \<notin> set (argv g)" by auto
    with search_options_without [OF opts] show "cfg_order cfg = NDB_ORDER_DESCENDING"
      by (simp add: cfg ndb_default_text_search_config_def)
  qed
  have first: "argv g = p # c # ''--oldest-first'' # r
                 \<longrightarrow> cfg_order cfg = NDB_ORDER_ASCENDING"
    using search_options_first [OF opts] by (simp add: cfg)
  have second: "(l = ''--limit'' \<or> l = ''-l'')
                  \<and> argv g = p # c # l # n # ''--oldest-first'' # r
                 \<longrightarrow> cfg_order cfg = NDB_ORDER_ASCENDING"
    using search_options_second [OF opts] by (auto simp: cfg)
  have beyond: "(l = ''--limit'' \<or> l = ''-l'') \<and> (l' = ''--limit'' \<or> l' = ''-l'')
                  \<and> argv g = p # c # l # n # l' # n' # r
                 \<longrightarrow> cfg_order cfg = NDB_ORDER_DESCENDING"
  proof
    assume h: "(l = ''--limit'' \<or> l = ''-l'') \<and> (l' = ''--limit'' \<or> l' = ''-l'')
                 \<and> argv g = p # c # l # n # l' # n' # r"
    then have "argv \<lparr>argv = argv g, argc = argc g,
                 search_config = ndb_default_text_search_config (default_search_limit e)\<rparr>
               = p # c # l # n # l' # n' # r"
      by simp
    from search_options_two_limits [OF opts this] h
    show "cfg_order cfg = NDB_ORDER_DESCENDING"
      by (simp add: cfg ndb_default_text_search_config_def)
  qed
  from omitted first second beyond show ?thesis by blast
qed

theorem search_order_witness:
  "main sample_env [''ndb'', ''search'', ''hello''] =
     Inr ([Ndb_config_set_mapsize 1099511627776, Ndb_config_set_flags 0,
           Stderr_using_db ''.'', Ndb_init ''.'', Ndb_begin_query,
           Ndb_text_search (Some ''hello'')
             \<lparr>cfg_order = NDB_ORDER_DESCENDING, cfg_limit = 128\<rparr>,
           Stderr_results 2, Print_text_search_result 0, Print_text_search_result 1,
           Ndb_end_query, Ndb_destroy], 0)
   \<and> cfg_order \<lparr>cfg_order = NDB_ORDER_DESCENDING, cfg_limit = 128\<rparr> = NDB_ORDER_DESCENDING
   \<and> main sample_env [''ndb'', ''-d'', ''x'', ''search'', ''--oldest-first'', ''hello''] =
     Inr ([Ndb_config_set_mapsize 1099511627776, Ndb_config_set_flags 0,
           Stderr_using_db ''x'', Ndb_init ''x'', Ndb_begin_query,
           Ndb_text_search (Some ''hello'')
             \<lparr>cfg_order = NDB_ORDER_ASCENDING, cfg_limit = 128\<rparr>,
           Stderr_results 2, Print_text_search_result 0, Print_text_search_result 1,
           Ndb_end_query, Ndb_destroy], 0)
   \<and> cfg_order \<lparr>cfg_order = NDB_ORDER_ASCENDING, cfg_limit = 128\<rparr> = NDB_ORDER_ASCENDING
   \<and> main sample_env [''ndb'', ''search'', ''--limit'', ''5'', ''--oldest-first'', ''hello''] =
     Inr ([Ndb_config_set_mapsize 1099511627776, Ndb_config_set_flags 0,
           Stderr_using_db ''.'', Ndb_init ''.'', Ndb_begin_query,
           Ndb_text_search (Some ''hello'')
             \<lparr>cfg_order = NDB_ORDER_ASCENDING, cfg_limit = 5\<rparr>,
           Stderr_results 2, Print_text_search_result 0, Print_text_search_result 1,
           Ndb_end_query, Ndb_destroy], 0)
   \<and> cfg_order \<lparr>cfg_order = NDB_ORDER_ASCENDING, cfg_limit = 5\<rparr> = NDB_ORDER_ASCENDING
   \<and> main sample_env [''ndb'', ''search'', ''-l'', ''5'', ''--limit'', ''7'', ''hello''] =
     Inr ([Ndb_config_set_mapsize 1099511627776, Ndb_config_set_flags 0,
           Stderr_using_db ''.'', Ndb_init ''.'', Ndb_begin_query,
           Ndb_text_search (Some ''hello'')
             \<lparr>cfg_order = NDB_ORDER_DESCENDING, cfg_limit = 7\<rparr>,
           Stderr_results 2, Print_text_search_result 0, Print_text_search_result 1,
           Ndb_end_query, Ndb_destroy], 0)
   \<and> cfg_order \<lparr>cfg_order = NDB_ORDER_DESCENDING, cfg_limit = 7\<rparr> = NDB_ORDER_DESCENDING"
proof -
  have run1: "main sample_env [''ndb'', ''search'', ''hello''] =
     Inr ([Ndb_config_set_mapsize 1099511627776, Ndb_config_set_flags 0,
           Stderr_using_db ''.'', Ndb_init ''.'', Ndb_begin_query,
           Ndb_text_search (Some ''hello'')
             \<lparr>cfg_order = NDB_ORDER_DESCENDING, cfg_limit = 128\<rparr>,
           Stderr_results 2, Print_text_search_result 0, Print_text_search_result 1,
           Ndb_end_query, Ndb_destroy], 0)"
    by code_simp
  have set1: "settings sample_env \<lparr>argv = [''ndb'', ''search'', ''hello''],
                 argc = int (length [''ndb'', ''search'', ''hello'']),
                 dir = ''.'', flags = 0\<rparr> =
              Inr \<lparr>argv = [''ndb'', ''search'', ''hello''], argc = 3, dir = ''.'', flags = 0\<rparr>"
    by code_simp
  have in1: "Ndb_text_search (Some ''hello'')
               \<lparr>cfg_order = NDB_ORDER_DESCENDING, cfg_limit = 128\<rparr>
             \<in> set [Ndb_config_set_mapsize 1099511627776, Ndb_config_set_flags 0,
           Stderr_using_db ''.'', Ndb_init ''.'', Ndb_begin_query,
           Ndb_text_search (Some ''hello'')
             \<lparr>cfg_order = NDB_ORDER_DESCENDING, cfg_limit = 128\<rparr>,
           Stderr_results 2, Print_text_search_result 0, Print_text_search_result 1,
           Ndb_end_query, Ndb_destroy]"
    by simp
  have omitted: "''--oldest-first'' \<notin> set [''ndb'', ''search'', ''hello'']" by simp
  have run2: "main sample_env [''ndb'', ''-d'', ''x'', ''search'', ''--oldest-first'', ''hello''] =
     Inr ([Ndb_config_set_mapsize 1099511627776, Ndb_config_set_flags 0,
           Stderr_using_db ''x'', Ndb_init ''x'', Ndb_begin_query,
           Ndb_text_search (Some ''hello'')
             \<lparr>cfg_order = NDB_ORDER_ASCENDING, cfg_limit = 128\<rparr>,
           Stderr_results 2, Print_text_search_result 0, Print_text_search_result 1,
           Ndb_end_query, Ndb_destroy], 0)"
    by code_simp
  have set2: "settings sample_env
                \<lparr>argv = [''ndb'', ''-d'', ''x'', ''search'', ''--oldest-first'', ''hello''],
                 argc = int (length [''ndb'', ''-d'', ''x'', ''search'', ''--oldest-first'',
                                     ''hello'']),
                 dir = ''.'', flags = 0\<rparr> =
              Inr \<lparr>argv = [''x'', ''search'', ''--oldest-first'', ''hello''], argc = 4,
                   dir = ''x'', flags = 0\<rparr>"
    by code_simp
  have in2: "Ndb_text_search (Some ''hello'')
               \<lparr>cfg_order = NDB_ORDER_ASCENDING, cfg_limit = 128\<rparr>
             \<in> set [Ndb_config_set_mapsize 1099511627776, Ndb_config_set_flags 0,
           Stderr_using_db ''x'', Ndb_init ''x'', Ndb_begin_query,
           Ndb_text_search (Some ''hello'')
             \<lparr>cfg_order = NDB_ORDER_ASCENDING, cfg_limit = 128\<rparr>,
           Stderr_results 2, Print_text_search_result 0, Print_text_search_result 1,
           Ndb_end_query, Ndb_destroy]"
    by simp
  have run3: "main sample_env [''ndb'', ''search'', ''--limit'', ''5'', ''--oldest-first'',
                               ''hello''] =
     Inr ([Ndb_config_set_mapsize 1099511627776, Ndb_config_set_flags 0,
           Stderr_using_db ''.'', Ndb_init ''.'', Ndb_begin_query,
           Ndb_text_search (Some ''hello'')
             \<lparr>cfg_order = NDB_ORDER_ASCENDING, cfg_limit = 5\<rparr>,
           Stderr_results 2, Print_text_search_result 0, Print_text_search_result 1,
           Ndb_end_query, Ndb_destroy], 0)"
    by code_simp
  have set3: "settings sample_env
                \<lparr>argv = [''ndb'', ''search'', ''--limit'', ''5'', ''--oldest-first'', ''hello''],
                 argc = int (length [''ndb'', ''search'', ''--limit'', ''5'', ''--oldest-first'',
                                     ''hello'']),
                 dir = ''.'', flags = 0\<rparr> =
              Inr \<lparr>argv = [''ndb'', ''search'', ''--limit'', ''5'', ''--oldest-first'',
                           ''hello''],
                   argc = 6, dir = ''.'', flags = 0\<rparr>"
    by code_simp
  have in3: "Ndb_text_search (Some ''hello'')
               \<lparr>cfg_order = NDB_ORDER_ASCENDING, cfg_limit = 5\<rparr>
             \<in> set [Ndb_config_set_mapsize 1099511627776, Ndb_config_set_flags 0,
           Stderr_using_db ''.'', Ndb_init ''.'', Ndb_begin_query,
           Ndb_text_search (Some ''hello'')
             \<lparr>cfg_order = NDB_ORDER_ASCENDING, cfg_limit = 5\<rparr>,
           Stderr_results 2, Print_text_search_result 0, Print_text_search_result 1,
           Ndb_end_query, Ndb_destroy]"
    by simp
  from search_order [OF run1 in1 set1] omitted
  have 1: "cfg_order \<lparr>cfg_order = NDB_ORDER_DESCENDING, cfg_limit = 128\<rparr>
             = NDB_ORDER_DESCENDING"
    by blast
  from search_order [OF run2 in2 set2, where p = "''x''" and c = "''search''"
      and r = "[''hello'']"]
  have 2: "cfg_order \<lparr>cfg_order = NDB_ORDER_ASCENDING, cfg_limit = 128\<rparr>
             = NDB_ORDER_ASCENDING"
    by simp
  from search_order [OF run3 in3 set3, where p = "''ndb''" and c = "''search''"
      and l = "''--limit''" and n = "''5''" and r = "[''hello'']"]
  have 3: "cfg_order \<lparr>cfg_order = NDB_ORDER_ASCENDING, cfg_limit = 5\<rparr>
             = NDB_ORDER_ASCENDING"
    by simp
  have run4: "main sample_env [''ndb'', ''search'', ''-l'', ''5'', ''--limit'', ''7'', ''hello''] =
     Inr ([Ndb_config_set_mapsize 1099511627776, Ndb_config_set_flags 0,
           Stderr_using_db ''.'', Ndb_init ''.'', Ndb_begin_query,
           Ndb_text_search (Some ''hello'')
             \<lparr>cfg_order = NDB_ORDER_DESCENDING, cfg_limit = 7\<rparr>,
           Stderr_results 2, Print_text_search_result 0, Print_text_search_result 1,
           Ndb_end_query, Ndb_destroy], 0)"
    by code_simp
  have set4: "settings sample_env
                \<lparr>argv = [''ndb'', ''search'', ''-l'', ''5'', ''--limit'', ''7'', ''hello''],
                 argc = int (length [''ndb'', ''search'', ''-l'', ''5'', ''--limit'', ''7'',
                                     ''hello'']),
                 dir = ''.'', flags = 0\<rparr> =
              Inr \<lparr>argv = [''ndb'', ''search'', ''-l'', ''5'', ''--limit'', ''7'', ''hello''],
                   argc = 7, dir = ''.'', flags = 0\<rparr>"
    by code_simp
  have in4: "Ndb_text_search (Some ''hello'')
               \<lparr>cfg_order = NDB_ORDER_DESCENDING, cfg_limit = 7\<rparr>
             \<in> set [Ndb_config_set_mapsize 1099511627776, Ndb_config_set_flags 0,
           Stderr_using_db ''.'', Ndb_init ''.'', Ndb_begin_query,
           Ndb_text_search (Some ''hello'')
             \<lparr>cfg_order = NDB_ORDER_DESCENDING, cfg_limit = 7\<rparr>,
           Stderr_results 2, Print_text_search_result 0, Print_text_search_result 1,
           Ndb_end_query, Ndb_destroy]"
    by simp
  from search_order [OF run4 in4 set4, where p = "''ndb''" and c = "''search''"
      and l = "''-l''" and n = "''5''" and l' = "''--limit''" and n' = "''7''"
      and r = "[''hello'']"]
  have 4: "cfg_order \<lparr>cfg_order = NDB_ORDER_DESCENDING, cfg_limit = 7\<rparr>
             = NDB_ORDER_DESCENDING"
    by simp
  from run1 run2 run3 run4 1 2 3 4 show ?thesis by simp
qed

text \<open>
  C7 as stated fails: in \<open>ndb search --limit 5 --limit 7 --oldest-first hello\<close> the
  flag precedes the query text, yet both iterations of the option loop go to the two
  \<open>--limit\<close> groups; the search is submitted in descending order with \<open>--oldest-first\<close>
  as its query text.
\<close>

theorem search_order_counterexample:
  "main sample_env [''ndb'', ''search'', ''--limit'', ''5'', ''--limit'', ''7'',
                    ''--oldest-first'', ''hello''] =
     Inr ([Ndb_config_set_mapsize 1099511627776, Ndb_config_set_flags 0,
           Stderr_using_db ''.'', Ndb_init ''.'', Ndb_begin_query,
           Ndb_text_search (Some ''--oldest-first'')
             \<lparr>cfg_order = NDB_ORDER_DESCENDING, cfg_limit = 7\<rparr>,
           Stderr_results 2, Print_text_search_result 0, Print_text_search_result 1,
           Ndb_end_query, Ndb_destroy], 0)"
  by code_simp

text \<open>
  C8. In the stats report, what follows the banner of the kinds section is, for each
  index of \<open>common_kinds\<close> in order whose count is not zero, the name of the kind and its
  line of counters, and nothing for an index whose count is zero; then the \<open>other\<close> name
  and line if the count of \<open>other_kinds\<close> is not zero, and nothing otherwise.
\<close>

theorem stats_kinds_section:
  "kinds_section (print_stats dbn kn stat) =
     concat (map (\<lambda>i. [Name_tab (kn i), print_stat_counts (common_kinds stat ! i)])
               (filter (\<lambda>i. count (common_kinds stat ! i) \<noteq> 0)
                  [0 ..< NDB_CKIND_COUNT stat]))
     @ (if count (other_kinds stat) \<noteq> 0
        then [Name_tab ''other'', print_stat_counts (other_kinds stat)] else [])"
proof -
  from dbs_loop_output [of dbn stat 0 ndb_stat_counts_init "[Column_names, Dbs_banner]"]
  obtain tot where
    dbs: "dbs_loop dbn stat 0 ndb_stat_counts_init [Column_names, Dbs_banner] =
       (tot, [Column_names, Dbs_banner] @
             concat (map (\<lambda>j. [Name_tab (dbn j), print_stat_counts (dbs stat ! j)])
                       [0 ..< NDB_DBS stat]))"
    by blast
  let ?pre = "[Column_names, Dbs_banner] @
             concat (map (\<lambda>j. [Name_tab (dbn j), print_stat_counts (dbs stat ! j)])
                       [0 ..< NDB_DBS stat]) @ [Name_tab ''total'', print_stat_counts tot]"
  let ?rows = "concat (map (\<lambda>i. [Name_tab (kn i), print_stat_counts (common_kinds stat ! i)])
               (filter (\<lambda>i. count (common_kinds stat ! i) \<noteq> 0)
                  [0 ..< NDB_CKIND_COUNT stat]))"
  have pre: "Kinds_banner \<notin> set ?pre"
    by (auto simp: print_stat_counts_def)
  have "print_stats dbn kn stat = ?pre @ Kinds_banner # (?rows @ print_other stat)"
    by (simp add: print_stats_def dbs kinds_loop_output)
  then have "kinds_section (print_stats dbn kn stat) = ?rows @ print_other stat"
    using kinds_section_after [OF pre] by simp
  then show ?thesis by (simp add: print_other_def)
qed

theorem stats_kinds_section_witness:
  "kinds_section (print_stats sample_name sample_name sample_stat) =
     [Name_tab ''text'', Counts_line 2 64 500 564,
      Name_tab ''other'', Counts_line 1 32 200 232]"
  using stats_kinds_section [of sample_name sample_name sample_stat]
  by (simp add: sample_stat_def NDB_CKIND_COUNT_def print_stat_counts_def upt_conv_Cons)

text \<open>
  C9. The commands \<open>print-search-keys\<close>, \<open>print-kind-keys\<close> and \<open>print-tag-keys\<close>, given
  alone, are accepted: once the store is open the program begins a query transaction,
  calls the matching printing function, ends the transaction, destroys the store handle
  and returns 0; the usage text is not printed.
\<close>

theorem print_keys_commands:
  assumes "ndb_init_ok e"
  shows "main e [p, ''print-search-keys''] =
           Inr ([Ndb_config_set_mapsize 1099511627776, Ndb_config_set_flags 0,
                 Stderr_using_db ''.'', Ndb_init ''.'',
                 Ndb_begin_query, Ndb_print_search_keys, Ndb_end_query, Ndb_destroy], 0)
         \<and> main e [p, ''print-kind-keys''] =
           Inr ([Ndb_config_set_mapsize 1099511627776, Ndb_config_set_flags 0,
                 Stderr_using_db ''.'', Ndb_init ''.'',
                 Ndb_begin_query, Ndb_print_kind_keys, Ndb_end_query, Ndb_destroy], 0)
         \<and> main e [p, ''print-tag-keys''] =
           Inr ([Ndb_config_set_mapsize 1099511627776, Ndb_config_set_flags 0,
                 Stderr_using_db ''.'', Ndb_init ''.'',
                 Ndb_begin_query, Ndb_print_tag_keys, Ndb_end_query, Ndb_destroy], 0)"
  using assms
  by (simp add: main_command dispatch_def command_is_def streq_def arg_at_def finish_def)

theorem print_keys_commands_witness:
  "ndb_init_ok sample_env
   \<and> main sample_env [''ndb'', ''print-search-keys''] =
       Inr ([Ndb_config_set_mapsize 1099511627776, Ndb_config_set_flags 0,
             Stderr_using_db ''.'', Ndb_init ''.'',
             Ndb_begin_query, Ndb_print_search_keys, Ndb_end_query, Ndb_destroy], 0)"
proof -
  have h: "ndb_init_ok sample_env" by (simp add: sample_env_def)
  from print_keys_commands [OF h, of "''ndb''"] h show ?thesis by simp
qed

text \<open>
  C10. The \<open>-l\<close> branch leaves \<open>current_field\<close> at LIMIT although its last call has
  ended the field, so the builder has no field open. If the next group is \<open>-l\<close>, \<open>-u\<close>
  or \<open>-t\<close>, its first call on the filter is an \<open>end_field\<close>; if the scan stops here, the
  closing step calls \<open>end_field\<close>. In both cases the call finds no open field and leaves
  the filter as it was.
\<close>

theorem stale_limit_marker:
  assumes "arg_at s 0 = Str ''-l''" and "query_step s = Inr s1"
  shows "current_field s1 = Some NDB_FILTER_LIMIT
       \<and> current (filter_of (calls s1)) = None
       \<and> filter_of (calls s1 @ [End_field]) = filter_of (calls s1)
       \<and> (arg_at s1 0 = Str t \<and> t \<in> {''-l'', ''-u'', ''-t''} \<and> query_step s1 = Inr s2
            \<longrightarrow> take (Suc (length (calls s1))) (calls s2) = calls s1 @ [End_field])
       \<and> calls (end_if_current s1) = calls s1 @ [End_field]"
proof -
  from assms have "query_l s = Inr s1" by (simp add: query_step_def)
  from query_l_calls [OF this] obtain cs
    where cf: "current_field s1 = Some NDB_FILTER_LIMIT" and cs: "calls s1 = cs @ [End_field]"
    by blast
  have closed: "current (filter_of (calls s1)) = None"
    by (simp add: cs filter_of_snoc end_field_closes)
  then have idle: "filter_of (calls s1 @ [End_field]) = filter_of (calls s1)"
    by (simp add: filter_of_snoc end_field_idle)
  have next_group:
    "arg_at s1 0 = Str t \<and> t \<in> {''-l'', ''-u'', ''-t''} \<and> query_step s1 = Inr s2
       \<longrightarrow> take (Suc (length (calls s1))) (calls s2) = calls s1 @ [End_field]"
    using cf
    by (auto simp: query_step_def query_l_def query_u_def query_t_def Let_def advance_def
        end_if_current_def split: sum.splits cell.splits)
  have "calls (end_if_current s1) = calls s1 @ [End_field]"
    using cf by (simp add: end_if_current_def)
  with cf closed idle next_group show ?thesis by blast
qed

theorem stale_limit_marker_witness:
  "query_step \<lparr>argv = [''-l'', ''10'', ''-u'', ''20''], argc = 4,
               current_field = None, calls = []\<rparr> =
     Inr \<lparr>argv = [''-u'', ''20''], argc = 2, current_field = Some NDB_FILTER_LIMIT,
          calls = [Start_field NDB_FILTER_LIMIT, Add_int_element 10, End_field]\<rparr>
   \<and> query_step \<lparr>argv = [''-u'', ''20''], argc = 2, current_field = Some NDB_FILTER_LIMIT,
                 calls = [Start_field NDB_FILTER_LIMIT, Add_int_element 10, End_field]\<rparr> =
     Inr \<lparr>argv = [], argc = 0, current_field = None,
          calls = [Start_field NDB_FILTER_LIMIT, Add_int_element 10, End_field, End_field,
                   Start_field NDB_FILTER_UNTIL, Add_int_element 20, End_field]\<rparr>
   \<and> current (filter_of [Start_field NDB_FILTER_LIMIT, Add_int_element 10, End_field]) = None
   \<and> filter_of [Start_field NDB_FILTER_LIMIT, Add_int_element 10, End_field, End_field] =
       filter_of [Start_field NDB_FILTER_LIMIT, Add_int_element 10, End_field]"
proof -
  let ?s = "\<lparr>argv = [''-l'', ''10'', ''-u'', ''20''], argc = 4,
             current_field = None, calls = []\<rparr>"
  let ?s1 = "\<lparr>argv = [''-u'', ''20''], argc = 2, current_field = Some NDB_FILTER_LIMIT,
              calls = [Start_field NDB_FILTER_LIMIT, Add_int_element 10, End_field]\<rparr>"
  let ?s2 = "\<lparr>argv = [], argc = 0, current_field = None,
              calls = [Start_field NDB_FILTER_LIMIT, Add_int_element 10, End_field, End_field,
                       Start_field NDB_FILTER_UNTIL, Add_int_element 20, End_field]\<rparr>"
  have h1: "arg_at ?s 0 = Str ''-l''" by (simp add: arg_at_def)
  have h2: "query_step ?s = Inr ?s1" by code_simp
  have h3: "query_step ?s1 = Inr ?s2" by code_simp
  from stale_limit_marker [OF h1 h2, of "''-u''" ?s2] h2 h3 show ?thesis by simp
qed

end
